theory Spec2Isabelle
  imports Complex_Main "HOL-Library.Log_Nat" "HOL-Library.Word"
begin

section \<open>JavaScript numbers and strings\<close>

text \<open>
  A JavaScript number is an IEEE 754 binary64 value. The model keeps the exact rational a
  finite double stands for, and rounds the exact result of every arithmetic operation to
  the nearest double, ties to even, as the hardware does. The one thing left out is the
  sign of zero, which no comparison in this program can see.
\<close>

datatype jsnum = NaN | NegInf | Fin rat | PosInf

definition pow2 :: "int \<Rightarrow> rat" where
  "pow2 k = (if 0 \<le> k then 2 ^ nat k else 1 / 2 ^ nat (- k))"

text \<open>For \<open>x > 0\<close>, the exponent \<open>k\<close> with \<open>2 ^ k \<le> x < 2 ^ (k + 1)\<close>.\<close>

definition ilog2 :: "rat \<Rightarrow> int" where
  "ilog2 x = (case quotient_of x of (a, b) \<Rightarrow>
     (let d = bitlen a - bitlen b in if pow2 d \<le> x then d else d - 1))"

definition roundHalfEven :: "rat \<Rightarrow> int" where
  "roundHalfEven x =
     (let f = \<lfloor>x\<rfloor>; d = x - of_int f
      in if d < 1 / 2 then f else if 1 / 2 < d then f + 1 else if even f then f else f + 1)"

text \<open>
  Rounding a positive rational to binary64: 53 significant bits, the exponent \<open>e\<close> of the
  last bit at least \<open>-1074\<close> (subnormal numbers). The rounded value is \<open>q * 2 ^ e\<close> with
  \<open>q \<le> 2 ^ 53\<close>; it overflows to infinity when it reaches \<open>2 ^ 1024\<close>, that is when
  \<open>e > 971\<close>, or \<open>e = 971\<close> and \<open>q = 2 ^ 53\<close>.
\<close>

definition flPos :: "rat \<Rightarrow> jsnum" where
  "flPos x =
     (let e = max (ilog2 x - 52) (- 1074);
          q = roundHalfEven (x / pow2 e)
      in if 971 < e \<or> (e = 971 \<and> q = 2 ^ 53) then PosInf else Fin (of_int q * pow2 e))"

fun negate :: "jsnum \<Rightarrow> jsnum" where
  "negate NaN = NaN"
| "negate NegInf = PosInf"
| "negate (Fin x) = Fin (- x)"
| "negate PosInf = NegInf"

definition fl :: "rat \<Rightarrow> jsnum" where
  "fl x = (if x = 0 then Fin 0 else if 0 < x then flPos x else negate (flPos (- x)))"

text \<open>Arithmetic: the IEEE cases for NaN and the infinities, rounding on finite operands.\<close>

fun js_add :: "jsnum \<Rightarrow> jsnum \<Rightarrow> jsnum" where
  "js_add NaN _ = NaN"
| "js_add _ NaN = NaN"
| "js_add (Fin a) (Fin b) = fl (a + b)"
| "js_add PosInf NegInf = NaN"
| "js_add NegInf PosInf = NaN"
| "js_add PosInf _ = PosInf"
| "js_add _ PosInf = PosInf"
| "js_add NegInf _ = NegInf"
| "js_add _ NegInf = NegInf"

definition js_sub :: "jsnum \<Rightarrow> jsnum \<Rightarrow> jsnum" where
  "js_sub a b = js_add a (negate b)"

text \<open>The sign of a number that is not NaN: \<open>-1\<close>, \<open>0\<close> or \<open>1\<close>.\<close>

fun signOf :: "jsnum \<Rightarrow> int" where
  "signOf NaN = 0"
| "signOf NegInf = - 1"
| "signOf (Fin x) = (if x < 0 then - 1 else if x = 0 then 0 else 1)"
| "signOf PosInf = 1"

definition signedInf :: "int \<Rightarrow> jsnum" where
  "signedInf s = (if s = 0 then NaN else if s < 0 then NegInf else PosInf)"

fun js_mul :: "jsnum \<Rightarrow> jsnum \<Rightarrow> jsnum" where
  "js_mul NaN _ = NaN"
| "js_mul _ NaN = NaN"
| "js_mul (Fin a) (Fin b) = fl (a * b)"
| "js_mul a b = signedInf (signOf a * signOf b)"

text \<open>
  Division. A zero divisor is read as \<open>+0\<close>; the divisors of this program are the length
  of a non-empty array and the constant 255.
\<close>

fun js_div :: "jsnum \<Rightarrow> jsnum \<Rightarrow> jsnum" where
  "js_div NaN _ = NaN"
| "js_div _ NaN = NaN"
| "js_div (Fin a) (Fin b) = (if b = 0 then signedInf (signOf (Fin a)) else fl (a / b))"
| "js_div (Fin a) _ = Fin 0"
| "js_div a (Fin b) = signedInf (signOf a * (if b < 0 then - 1 else 1))"
| "js_div a b = NaN"

text \<open>Comparisons: every comparison with NaN is false.\<close>

fun js_lt :: "jsnum \<Rightarrow> jsnum \<Rightarrow> bool" where
  "js_lt NaN _ = False"
| "js_lt _ NaN = False"
| "js_lt (Fin a) (Fin b) = (a < b)"
| "js_lt _ NegInf = False"
| "js_lt NegInf _ = True"
| "js_lt PosInf _ = False"
| "js_lt _ PosInf = True"

definition js_gt :: "jsnum \<Rightarrow> jsnum \<Rightarrow> bool" where
  "js_gt a b = js_lt b a"

definition js_ge :: "jsnum \<Rightarrow> jsnum \<Rightarrow> bool" where
  "js_ge a b = (a \<noteq> NaN \<and> b \<noteq> NaN \<and> \<not> js_lt a b)"

text \<open>\<^verbatim>\<open>Math.max\<close>, \<^verbatim>\<open>Math.min\<close>: NaN when an argument is NaN.\<close>

definition Math_max :: "jsnum \<Rightarrow> jsnum \<Rightarrow> jsnum" where
  "Math_max a b = (if a = NaN \<or> b = NaN then NaN else if js_lt a b then b else a)"

definition Math_min :: "jsnum \<Rightarrow> jsnum \<Rightarrow> jsnum" where
  "Math_min a b = (if a = NaN \<or> b = NaN then NaN else if js_lt b a then b else a)"

text \<open>\<^verbatim>\<open>Math.round\<close>: the nearest integer, a tie going up.\<close>

fun Math_round :: "jsnum \<Rightarrow> jsnum" where
  "Math_round (Fin x) = Fin (of_int \<lfloor>x + 1 / 2\<rfloor>)"
| "Math_round a = a"

text \<open>\<^verbatim>\<open>const clamp = (n, min, max) => Math.max(min, Math.min(max, n))\<close>\<close>

definition clamp :: "jsnum \<Rightarrow> jsnum \<Rightarrow> jsnum \<Rightarrow> jsnum" where
  "clamp n mn mx = Math_max mn (Math_min mx n)"

text \<open>A decimal literal of the source denotes the nearest double.\<close>

definition lit :: "rat \<Rightarrow> jsnum" where
  "lit x = fl x"

subsection \<open>Printing numbers\<close>

text \<open>
  \<^verbatim>\<open>n.toString(radix)\<close> of a non-negative integer, and \<^verbatim>\<open>String(n)\<close> of an integer:
  digits, a minus sign when negative.
\<close>

definition digitChar :: "nat \<Rightarrow> char" where
  "digitChar d = ''0123456789abcdef'' ! d"

fun natToString :: "nat \<Rightarrow> nat \<Rightarrow> string" where
  "natToString radix n =
     (if radix < 2 \<or> n < radix then [digitChar n]
      else natToString radix (n div radix) @ [digitChar (n mod radix)])"

declare natToString.simps [simp del]

definition intToString :: "int \<Rightarrow> string" where
  "intToString i = (if i < 0 then CHR ''-'' # natToString 10 (nat (- i)) else natToString 10 (nat i))"

text \<open>
  \<^verbatim>\<open>String(n)\<close> of a number, as a template literal applies it. Integers below
  \<open>10 ^ 21\<close> print their decimal digits. The program only prints the result of
  \<^verbatim>\<open>Math.round\<close>, an integer; other finite values have no modelled text and print as
  their integer part.
\<close>

fun numberToString :: "jsnum \<Rightarrow> string" where
  "numberToString NaN = ''NaN''"
| "numberToString PosInf = ''Infinity''"
| "numberToString NegInf = ''-Infinity''"
| "numberToString (Fin x) = intToString \<lfloor>x\<rfloor>"

subsection \<open>Strings\<close>

text \<open>
  Strings are lists of code units, here the code units below 256. The white space of
  \<^verbatim>\<open>trim\<close> and \<^verbatim>\<open>parseInt\<close> in that range: TAB, LF, VT, FF, CR, space and the
  no-break space.
\<close>

definition isWhiteSpace :: "char \<Rightarrow> bool" where
  "isWhiteSpace c = ((of_char c :: nat) \<in> {9, 10, 11, 12, 13, 32, 160})"

definition trim :: "string \<Rightarrow> string" where
  "trim s = rev (dropWhile isWhiteSpace (rev (dropWhile isWhiteSpace s)))"

text \<open>\<^verbatim>\<open>xs.join(sep)\<close>\<close>

fun join :: "string \<Rightarrow> string list \<Rightarrow> string" where
  "join sep [] = []"
| "join sep [x] = x"
| "join sep (x # y # ys) = x @ sep @ join sep (y # ys)"

text \<open>\<^verbatim>\<open>s.padStart(n, c)\<close> with a one-character pad.\<close>

definition padStart :: "nat \<Rightarrow> char \<Rightarrow> string \<Rightarrow> string" where
  "padStart n c s = replicate (n - length s) c @ s"

text \<open>The value of a hexadecimal digit.\<close>

definition hexDigitValue :: "char \<Rightarrow> nat option" where
  "hexDigitValue c =
     (let n = (of_char c :: nat)
      in if 48 \<le> n \<and> n \<le> 57 then Some (n - 48)
         else if 97 \<le> n \<and> n \<le> 102 then Some (n - 87)
         else if 65 \<le> n \<and> n \<le> 70 then Some (n - 55)
         else None)"

definition isHexDigit :: "char \<Rightarrow> bool" where
  "isHexDigit c = (hexDigitValue c \<noteq> None)"

text \<open>
  \<^verbatim>\<open>parseInt(s, 16)\<close>: skip leading white space, read a sign, skip a \<^verbatim>\<open>0x\<close> or
  \<^verbatim>\<open>0X\<close>, read the longest run of hexadecimal digits; no digit gives NaN.
\<close>

definition digitsValue :: "string \<Rightarrow> nat" where
  "digitsValue z = foldl (\<lambda>acc c. 16 * acc + (case hexDigitValue c of Some d \<Rightarrow> d | None \<Rightarrow> 0)) 0 z"

definition parseInt16 :: "string \<Rightarrow> jsnum" where
  "parseInt16 s =
     (let s1 = dropWhile isWhiteSpace s;
          sign = (case s1 of c # _ \<Rightarrow> if c = CHR ''-'' then - 1 else 1 | [] \<Rightarrow> (1 :: int));
          s2 = (case s1 of c # r \<Rightarrow> if c = CHR ''-'' \<or> c = CHR ''+'' then r else s1 | [] \<Rightarrow> s1);
          s3 = (case s2 of c # x # r \<Rightarrow>
                  if c = CHR ''0'' \<and> (x = CHR ''x'' \<or> x = CHR ''X'') then r else s2
                | _ \<Rightarrow> s2);
          z = takeWhile isHexDigit s3
      in if z = [] then NaN else fl (of_int (sign * int (digitsValue z))))"

section \<open>The colour quantizer\<close>

unbundle bit_operations_syntax

text \<open>A rejected promise or a thrown exception carries an \<^verbatim>\<open>Error\<close> with its message.\<close>

datatype error = Error string

text \<open>
  What \<^verbatim>\<open>extractDominantPalette\<close> gets from the browser for one file:
  \<^verbatim>\<open>loadImageFromFile\<close> rejects, or the canvas gives no 2D context, or
  \<^verbatim>\<open>getImageData\<close> returns the RGBA bytes of the scaled image (a
  \<^verbatim>\<open>Uint8ClampedArray\<close>). Decoding and scaling are the browser's.
\<close>

datatype FileOutcome = Rejected error | NoContext | Pixels "8 word list"

text \<open>\<^verbatim>\<open>data[i]\<close>: \<^verbatim>\<open>undefined\<close> past the end.\<close>

definition elemAt :: "'a list \<Rightarrow> nat \<Rightarrow> 'a option" where
  "elemAt xs i = (if i < length xs then Some (xs ! i) else None)"

text \<open>\<^verbatim>\<open>a < 220\<close>: false on \<^verbatim>\<open>undefined\<close>. \<^verbatim>\<open>v >> 4\<close>: zero on \<^verbatim>\<open>undefined\<close>.\<close>

definition alphaBelow220 :: "8 word option \<Rightarrow> bool" where
  "alphaBelow220 a = (case a of None \<Rightarrow> False | Some w \<Rightarrow> unat w < 220)"

definition shiftRight4 :: "8 word option \<Rightarrow> nat" where
  "shiftRight4 v = (case v of None \<Rightarrow> 0 | Some w \<Rightarrow> drop_bit 4 (unat w))"

text \<open>
  The histogram is a \<^verbatim>\<open>Map<number, number>\<close>: its entries keep the order in which the keys
  were first set. \<^verbatim>\<open>histogram.get(key) || 0\<close> and \<^verbatim>\<open>histogram.set(key, v)\<close>:
\<close>

type_synonym Histogram = "(nat \<times> nat) list"

definition mapGet0 :: "Histogram \<Rightarrow> nat \<Rightarrow> nat" where
  "mapGet0 h key = (case map_of h key of None \<Rightarrow> 0 | Some c \<Rightarrow> c)"

fun mapSet :: "Histogram \<Rightarrow> nat \<Rightarrow> nat \<Rightarrow> Histogram" where
  "mapSet [] key v = [(key, v)]"
| "mapSet ((k, c) # h) key v = (if k = key then (k, v) # h else (k, c) # mapSet h key v)"

text \<open>\<^verbatim>\<open>histogram.set(key, (histogram.get(key) || 0) + 1)\<close>\<close>

definition addKey :: "Histogram \<Rightarrow> nat \<Rightarrow> Histogram" where
  "addKey histogram key = mapSet histogram key (mapGet0 histogram key + 1)"

text \<open>The bucket key of the pixel at byte offset \<open>i\<close>.\<close>

definition bucketKey :: "8 word list \<Rightarrow> nat \<Rightarrow> nat" where
  "bucketKey dat i =
     (let r = elemAt dat (i + 0);
          g = elemAt dat (i + 1);
          b = elemAt dat (i + 2);
          rb = shiftRight4 r;
          gb = shiftRight4 g;
          bb = shiftRight4 b
      in push_bit 8 rb OR push_bit 4 gb OR bb)"

text \<open>
  \<^verbatim>\<open>for (let i = 0; i < data.length; i += stride)\<close> with \<^verbatim>\<open>stride = 4 * 3\<close>; a pixel
  whose alpha is below 220 is skipped.
\<close>

function pixelLoop :: "8 word list \<Rightarrow> nat \<Rightarrow> Histogram \<Rightarrow> Histogram" where
  "pixelLoop dat i histogram =
     (if i < length dat then
        (if alphaBelow220 (elemAt dat (i + 3)) then pixelLoop dat (i + 12) histogram
         else pixelLoop dat (i + 12) (addKey histogram (bucketKey dat i)))
      else histogram)"
  by pat_completeness auto
termination
  by (relation "measure (\<lambda>(dat, i, h). length dat - i)") auto

declare pixelLoop.simps [simp del]

text \<open>\<^verbatim>\<open>for (const file of files)\<close>: a rejected load ends the whole call.\<close>

fun fileLoop :: "FileOutcome list \<Rightarrow> Histogram \<Rightarrow> error + Histogram" where
  "fileLoop [] histogram = Inr histogram"
| "fileLoop (Rejected e # files) histogram = Inl e"
| "fileLoop (NoContext # files) histogram = fileLoop files histogram"
| "fileLoop (Pixels dat # files) histogram = fileLoop files (pixelLoop dat 0 histogram)"

text \<open>
  \<^verbatim>\<open>.sort((a, b) => b[1] - a[1])\<close>: by descending count; the sort is stable, entries of
  equal count keep their order.
\<close>

definition sortEntries :: "Histogram \<Rightarrow> Histogram" where
  "sortEntries h = sort_key (\<lambda>e. - int (snd e)) h"

text \<open>\<^verbatim>\<open>xs.slice(0, n)\<close> for an integer \<open>n\<close>: a negative \<open>n\<close> counts from the end.\<close>

definition slice0 :: "'a list \<Rightarrow> int \<Rightarrow> 'a list" where
  "slice0 xs n = (if n < 0 then take (nat (int (length xs) + n)) xs else take (nat n) xs)"

text \<open>\<^verbatim>\<open>n.toString(16)\<close> of a number that holds an integer, or NaN.\<close>

fun toString16 :: "jsnum \<Rightarrow> string" where
  "toString16 NaN = ''NaN''"
| "toString16 PosInf = ''Infinity''"
| "toString16 NegInf = ''-Infinity''"
| "toString16 (Fin x) =
     (if x < 0 then CHR ''-'' # natToString 16 (nat \<lfloor>- x\<rfloor>) else natToString 16 (nat \<lfloor>x\<rfloor>))"

definition rgbToHex :: "jsnum \<Rightarrow> jsnum \<Rightarrow> jsnum \<Rightarrow> string" where
  "rgbToHex r g b =
     CHR ''#'' # concat (map (\<lambda>v. padStart 2 CHR ''0''
        (toString16 (clamp (Math_round v) (Fin 0) (Fin 255)))) [r, g, b])"

text \<open>The body of the loop over \<^verbatim>\<open>top\<close>, up to the hex string: the centre of the bucket.\<close>

definition hexOfKey :: "nat \<Rightarrow> string" where
  "hexOfKey key =
     (let rb = drop_bit 8 key AND 15;
          gb = drop_bit 4 key AND 15;
          bb = key AND 15;
          r = rb * 16 + 8;
          g = gb * 16 + 8;
          b = bb * 16 + 8
      in rgbToHex (Fin (of_nat r)) (Fin (of_nat g)) (Fin (of_nat b)))"

text \<open>
  \<^verbatim>\<open>for (const [key] of top) { ...; if (!colors.includes(hex)) colors.push(hex);
  if (colors.length >= count) break; }\<close>
\<close>

fun collect :: "Histogram \<Rightarrow> int \<Rightarrow> string list \<Rightarrow> string list" where
  "collect [] count colors = colors"
| "collect ((key, c) # entries) count colors =
     (let hex = hexOfKey key;
          colors' = (if hex \<in> set colors then colors else colors @ [hex])
      in if count \<le> int (length colors') then colors' else collect entries count colors')"

text \<open>
  \<^verbatim>\<open>extractDominantPalette(files, count)\<close>. The count is an integer (the one call of
  the repository passes 5).
\<close>

definition extractDominantPalette :: "FileOutcome list \<Rightarrow> int \<Rightarrow> error + string list" where
  "extractDominantPalette files count =
     (case fileLoop files [] of
        Inl e \<Rightarrow> Inl e
      | Inr histogram \<Rightarrow>
          (let entries = slice0 (sortEntries histogram) (max (count * 3) count)
           in Inr (collect entries count [])))"

subsection \<open>What the histogram counts\<close>

text \<open>
  The byte offsets the pixel loop visits, those it keeps (alpha not below 220), and the
  bucket keys of the kept pixels of all files, in the order of the loops. The pixel
  frequency of a bucket is the number of kept pixels with its key.
\<close>

definition sampleOffsets :: "8 word list \<Rightarrow> nat list" where
  "sampleOffsets dat = filter (\<lambda>i. i mod 12 = 0) [0 ..< length dat]"

definition keptKeys :: "8 word list \<Rightarrow> nat list" where
  "keptKeys dat =
     map (bucketKey dat) (filter (\<lambda>i. \<not> alphaBelow220 (elemAt dat (i + 3))) (sampleOffsets dat))"

fun sampledKeys :: "FileOutcome list \<Rightarrow> nat list" where
  "sampledKeys [] = []"
| "sampledKeys (Pixels dat # files) = keptKeys dat @ sampledKeys files"
| "sampledKeys (f # files) = sampledKeys files"

definition pixelFrequency :: "FileOutcome list \<Rightarrow> nat \<Rightarrow> nat" where
  "pixelFrequency files key = count_list (sampledKeys files) key"



section \<open>The mood heuristic\<close>

text \<open>
  The callback of \<^verbatim>\<open>palette.map\<close> in \<^verbatim>\<open>inferMoodKeywords\<close>:
  \<^verbatim>\<open>hex.replace("#", "")\<close> removes the first \<^verbatim>\<open>#\<close>, wherever it stands, and the three
  slices are parsed as hexadecimal numbers.
\<close>

definition hexToRgb :: "string \<Rightarrow> jsnum \<times> jsnum \<times> jsnum" where
  "hexToRgb hex =
     (let h = remove1 CHR ''#'' hex;
          r = parseInt16 (take 2 h);
          g = parseInt16 (take 2 (drop 2 h));
          b = parseInt16 (take 2 (drop 4 h))
      in (r, g, b))"

text \<open>The \<^verbatim>\<open>reduce\<close> that sums the channels, and the division by \<^verbatim>\<open>rgb.length\<close>.\<close>

definition addRgb :: "jsnum \<times> jsnum \<times> jsnum \<Rightarrow> jsnum \<times> jsnum \<times> jsnum \<Rightarrow> jsnum \<times> jsnum \<times> jsnum" where
  "addRgb acc c =
     (case acc of (ar, ag, ab) \<Rightarrow> (case c of (cr, cg, cb) \<Rightarrow>
        (js_add ar cr, js_add ag cg, js_add ab cb)))"

definition averageColor :: "string list \<Rightarrow> jsnum \<times> jsnum \<times> jsnum" where
  "averageColor palette =
     (let rgb = map hexToRgb palette;
          n = fl (of_nat (length rgb))
      in (case foldl addRgb (Fin 0, Fin 0, Fin 0) rgb of (sr, sg, sb) \<Rightarrow>
            (js_div sr n, js_div sg n, js_div sb n)))"

text \<open>
  \<^verbatim>\<open>(0.2126 * avg.r + 0.7152 * avg.g + 0.0722 * avg.b) / 255\<close> and
  \<^verbatim>\<open>(Math.max(avg.r, avg.g, avg.b) - Math.min(avg.r, avg.g, avg.b)) / 255\<close>
\<close>

definition brightnessOf :: "jsnum \<times> jsnum \<times> jsnum \<Rightarrow> jsnum" where
  "brightnessOf avg =
     (case avg of (r, g, b) \<Rightarrow>
        js_div (js_add (js_add (js_mul (lit (2126 / 10000)) r) (js_mul (lit (7152 / 10000)) g))
                       (js_mul (lit (722 / 10000)) b))
               (Fin 255))"

definition chromaOf :: "jsnum \<times> jsnum \<times> jsnum \<Rightarrow> jsnum" where
  "chromaOf avg =
     (case avg of (r, g, b) \<Rightarrow>
        (let mx = Math_max (Math_max r g) b;
             mn = Math_min (Math_min r g) b
         in js_div (js_sub mx mn) (Fin 255)))"

definition inferMoodKeywords :: "string list \<Rightarrow> string list" where
  "inferMoodKeywords palette =
     (if length palette = 0 then [''balanced'', ''clean'', ''modern'']
      else
        (let avg = averageColor palette;
             brightness = brightnessOf avg;
             chroma = chromaOf avg;
             moods0 = [];
             moods1 = moods0 @ [if js_lt brightness (lit (35 / 100)) then ''moody''
                                else if js_gt brightness (lit (7 / 10)) then ''airy''
                                else ''balanced''];
             moods2 = moods1 @ [if js_gt chroma (lit (35 / 100)) then ''vibrant'' else ''muted''];
             moods3 = moods2 @ [''stylized'']
         in take 3 moods3))"

section \<open>The style inference orchestrator\<close>

text \<open>The result of a style analysis (\<^verbatim>\<open>StyleAnalysisResponse\<close>).\<close>

record StyleAnalysisResponse =
  sa_artisticStyle :: string
  sa_visualTechnique :: string
  sa_colorPalette :: "string list"
  sa_moodKeywords :: "string list"
  sa_suggestedName :: string
  sa_embedding :: "rat list option"
  sa_reasoning :: "string option"

text \<open>
  A parsed JSON value, as \<^verbatim>\<open>JSON.parse\<close> returns it: an object holds one entry per key.
\<close>

datatype json =
    JNull
  | JBool bool
  | JNumber jsnum
  | JString string
  | JArray "json list"
  | JObject "(string \<times> json) list"

text \<open>\<^verbatim>\<open>parsed?.key\<close>: \<^verbatim>\<open>undefined\<close> unless \<open>parsed\<close> is an object that has the key.\<close>

fun getField :: "json \<Rightarrow> string \<Rightarrow> json option" where
  "getField (JObject kvs) key = map_of kvs key"
| "getField _ key = None"

text \<open>\<^verbatim>\<open>typeof v === "string" ? v : undefined\<close>\<close>

fun stringField :: "json option \<Rightarrow> string option" where
  "stringField (Some (JString s)) = Some s"
| "stringField _ = None"

text \<open>
  \<^verbatim>\<open>toLowerCase\<close> on the letters A to Z (\<open>normalizeHex\<close> applies it to hexadecimal digits
  only).
\<close>

definition toLowerChar :: "char \<Rightarrow> char" where
  "toLowerChar c =
     (let n = (of_char c :: nat) in if 65 \<le> n \<and> n \<le> 90 then char_of (n + 32) else c)"

text \<open>\<^verbatim>\<open>.replace(/^0x/i, "")\<close> and \<^verbatim>\<open>.replace(/^#/, "")\<close>\<close>

fun strip0x :: "string \<Rightarrow> string" where
  "strip0x (c # x # r) = (if c = CHR ''0'' \<and> (x = CHR ''x'' \<or> x = CHR ''X'') then r else c # x # r)"
| "strip0x s = s"

fun stripHash :: "string \<Rightarrow> string" where
  "stripHash (c # r) = (if c = CHR ''#'' then r else c # r)"
| "stripHash s = s"

fun normalizeHex :: "json \<Rightarrow> string option" where
  "normalizeHex (JString hex) =
     (let h = stripHash (strip0x (trim hex))
      in if \<not> (length h = 6 \<and> list_all isHexDigit h) then None
         else Some (CHR ''#'' # map toLowerChar h))"
| "normalizeHex _ = None"

text \<open>
  \<^verbatim>\<open>Partial<StyleAnalysisResponse>\<close> as \<^verbatim>\<open>extractStyleWithVlm\<close> builds it (it never sets an
  embedding); \<^verbatim>\<open>{}\<close> is the record with every field absent.
\<close>

record VlmPartial =
  vlm_artisticStyle :: "string option"
  vlm_visualTechnique :: "string option"
  vlm_colorPalette :: "string list option"
  vlm_moodKeywords :: "string list option"
  vlm_suggestedName :: "string option"
  vlm_reasoning :: "string option"

definition emptyVlm :: VlmPartial where
  "emptyVlm =
     \<lparr> vlm_artisticStyle = None, vlm_visualTechnique = None, vlm_colorPalette = None,
       vlm_moodKeywords = None, vlm_suggestedName = None, vlm_reasoning = None \<rparr>"

text \<open>
  \<^verbatim>\<open>parsed.colorPalette.map(normalizeHex).filter(Boolean)\<close> and
  \<^verbatim>\<open>parsed.moodKeywords.filter((x) => typeof x === "string").slice(0, 6)\<close>, each
  \<^verbatim>\<open>undefined\<close> when the field is not an array.
\<close>

fun paletteField :: "json option \<Rightarrow> string list option" where
  "paletteField (Some (JArray xs)) = Some (List.map_filter normalizeHex xs)"
| "paletteField _ = None"

fun moodsField :: "json option \<Rightarrow> string list option" where
  "moodsField (Some (JArray xs)) = Some (take 6 (List.map_filter (\<lambda>x. stringField (Some x)) xs))"
| "moodsField _ = None"

definition vlmFields :: "json \<Rightarrow> VlmPartial" where
  "vlmFields parsed =
     \<lparr> vlm_artisticStyle = stringField (getField parsed ''artisticStyle''),
       vlm_visualTechnique = stringField (getField parsed ''visualTechnique''),
       vlm_colorPalette = paletteField (getField parsed ''colorPalette''),
       vlm_moodKeywords = moodsField (getField parsed ''moodKeywords''),
       vlm_suggestedName = stringField (getField parsed ''suggestedName''),
       vlm_reasoning = stringField (getField parsed ''reasoning'') \<rparr>"

text \<open>
  \<^verbatim>\<open>extractStyleWithVlm(imageDataUrl)\<close>. The request and the reading of its answer
  (\<^verbatim>\<open>fetch\<close>, the status test, the test for a content string, \<^verbatim>\<open>safeJsonParse\<close> with
  the built-in \<^verbatim>\<open>JSON.parse\<close>) are the argument \<open>vlmCall\<close>: it throws, or gives the parsed
  value.
\<close>

definition extractStyleWithVlm :: "(string \<Rightarrow> error + json) \<Rightarrow> string \<Rightarrow> error + VlmPartial" where
  "extractStyleWithVlm vlmCall imageDataUrl =
     (case vlmCall imageDataUrl of Inl e \<Rightarrow> Inl e | Inr parsed \<Rightarrow> Inr (vlmFields parsed))"

text \<open>The collage: a data URL and the encoded bytes.\<close>

record Collage =
  dataUrl :: string
  blob :: "8 word list"

text \<open>\<^verbatim>\<open>v || d\<close> on an optional string: \<open>d\<close> when \<open>v\<close> is absent or empty.\<close>

definition orDefault :: "string option \<Rightarrow> string \<Rightarrow> string" where
  "orDefault v d = (case v of None \<Rightarrow> d | Some s \<Rightarrow> if s = [] then d else s)"

text \<open>\<^verbatim>\<open>v && v.length ? v : d\<close> on an optional array.\<close>

definition nonEmptyOr :: "'a list option \<Rightarrow> 'a list \<Rightarrow> 'a list" where
  "nonEmptyOr v d = (case v of None \<Rightarrow> d | Some xs \<Rightarrow> if length xs = 0 then d else xs)"

text \<open>
  \<^verbatim>\<open>analyzeStyle(files, onProgress)\<close>. The three best-effort stages are arguments: what
  \<^verbatim>\<open>createReferenceCollage\<close> does (throws, or gives a collage), what the VLM request does
  on a data URL, what \<^verbatim>\<open>extractImageEmbedding\<close> does on the collage bytes; \<open>today\<close> is
  \<^verbatim>\<open>new Date().toLocaleDateString()\<close>. The progress callback is left out. An error of
  \<^verbatim>\<open>extractDominantPalette\<close>, which runs outside any \<^verbatim>\<open>try\<close>, ends the call.
\<close>

definition analyzeStyle ::
  "FileOutcome list \<Rightarrow> error + Collage \<Rightarrow> (string \<Rightarrow> error + json)
     \<Rightarrow> (8 word list \<Rightarrow> error + rat list option) \<Rightarrow> string \<Rightarrow> error + StyleAnalysisResponse" where
  "analyzeStyle files createReferenceCollage vlmCall extractImageEmbedding today =
     (case extractDominantPalette files 5 of
        Inl e \<Rightarrow> Inl e
      | Inr palette \<Rightarrow>
         (let moodFallback = inferMoodKeywords palette;
              collage = (case createReferenceCollage of Inl e \<Rightarrow> None | Inr c \<Rightarrow> Some c);
              vlm = (case collage of
                       None \<Rightarrow> emptyVlm
                     | Some c \<Rightarrow>
                         (case extractStyleWithVlm vlmCall (dataUrl c) of
                            Inl e \<Rightarrow> emptyVlm
                          | Inr v \<Rightarrow> v));
              colorPalette = nonEmptyOr (vlm_colorPalette vlm) palette;
              moodKeywords = nonEmptyOr (vlm_moodKeywords vlm) moodFallback;
              suggestedName = orDefault (vlm_suggestedName vlm) (''Custom Style '' @ today);
              artisticStyle = orDefault (vlm_artisticStyle vlm) ''Custom'';
              visualTechnique = orDefault (vlm_visualTechnique vlm) ''Reference-guided'';
              reasoning = orDefault (vlm_reasoning vlm)
                ''Extracted a dominant palette and inferred basic mood from reference images.'';
              embedding = (case collage of
                             None \<Rightarrow> None
                           | Some c \<Rightarrow>
                               (case extractImageEmbedding (blob c) of
                                  Inl e \<Rightarrow> None
                                | Inr v \<Rightarrow> v))
          in Inr \<lparr> sa_artisticStyle = artisticStyle,
                   sa_visualTechnique = visualTechnique,
                   sa_colorPalette = colorPalette,
                   sa_moodKeywords = moodKeywords,
                   sa_suggestedName = suggestedName,
                   sa_embedding = embedding,
                   sa_reasoning = Some reasoning \<rparr>))"

subsection \<open>The external values in the words of the specification\<close>

text \<open>
  The merge rule speaks of the external value of a field being present and non-empty.
  These definitions read the external value off the parsed answer, with an absent or
  wrong-typed field read as empty: the palette after the hex validation, the mood keywords
  after dropping non-strings and keeping at most six, and a string field.
\<close>

definition externalPalette :: "json \<Rightarrow> string list" where
  "externalPalette parsed =
     (case getField parsed ''colorPalette'' of
        Some (JArray xs) \<Rightarrow> List.map_filter normalizeHex xs
      | _ \<Rightarrow> [])"

definition externalMoods :: "json \<Rightarrow> string list" where
  "externalMoods parsed =
     (case getField parsed ''moodKeywords'' of
        Some (JArray xs) \<Rightarrow> take 6 (List.map_filter (\<lambda>x. case x of JString s \<Rightarrow> Some s | _ \<Rightarrow> None) xs)
      | _ \<Rightarrow> [])"

definition externalString :: "json \<Rightarrow> string \<Rightarrow> string" where
  "externalString parsed key = (case getField parsed key of Some (JString s) \<Rightarrow> s | _ \<Rightarrow> [])"

text \<open>
  The hex validation as the specification words it: exactly six hexadecimal digits after
  stripping an optional \<^verbatim>\<open>0x\<close> or \<^verbatim>\<open>#\<close> prefix.
\<close>

definition claimStrip :: "string \<Rightarrow> string" where
  "claimStrip s = (if take 2 s = ''0x'' then drop 2 s else if take 1 s = ''#'' then drop 1 s else s)"

definition claimValidHex :: "string \<Rightarrow> bool" where
  "claimValidHex s = (length (claimStrip s) = 6 \<and> list_all isHexDigit (claimStrip s))"

text \<open>Inputs used as examples: one opaque pixel of colour \<^verbatim>\<open>#3366cc\<close>, a collage, two answers.\<close>

definition onePixel :: "FileOutcome list" where
  "onePixel = [Pixels [51, 102, 204, 255]]"

definition someCollage :: Collage where
  "someCollage = \<lparr> dataUrl = ''data:image/png;base64,AAAA'', blob = [137, 80, 78, 71] \<rparr>"

definition fiveColours :: json where
  "fiveColours = JObject [(''colorPalette'',
     JArray [JString ''#112233'', JString ''zzzzzz'', JString ''#445566'',
             JString ''#778899'', JString ''#aabbcc''])]"

definition paddedColour :: json where
  "paddedColour = JObject [(''colorPalette'', JArray [JString '' #aabbcc''])]"

section \<open>Prompt fusion\<close>

text \<open>
  The \<^verbatim>\<open>styleData\<close> argument is untyped; the function reads five of its fields, each of
  which may be missing. \<open>None\<close> for the whole argument is \<^verbatim>\<open>null\<close> or \<^verbatim>\<open>undefined\<close>.
\<close>

record StyleArg =
  sd_palette :: "string list option"
  sd_colorPalette :: "string list option"
  sd_moods :: "string list option"
  sd_moodKeywords :: "string list option"
  sd_visualTechnique :: "string option"

text \<open>\<^verbatim>\<open>styleData?.a || styleData?.b || []\<close>: an array, even an empty one, is truthy.\<close>

definition firstPresent :: "'a list option \<Rightarrow> 'a list option \<Rightarrow> 'a list" where
  "firstPresent a b = (case a of Some xs \<Rightarrow> xs | None \<Rightarrow> (case b of Some ys \<Rightarrow> ys | None \<Rightarrow> []))"

definition newline :: char where
  "newline = char_of (10 :: nat)"

definition performReasoning :: "string \<Rightarrow> StyleArg option \<Rightarrow> jsnum \<Rightarrow> string" where
  "performReasoning userPrompt styleData intensity =
     (let safeIntensity = clamp intensity (Fin 0) (Fin 1);
          palette = firstPresent (Option.bind styleData sd_palette) (Option.bind styleData sd_colorPalette);
          moods = firstPresent (Option.bind styleData sd_moods) (Option.bind styleData sd_moodKeywords);
          technique = orDefault (Option.bind styleData sd_visualTechnique) ''''
      in if js_lt safeIntensity (lit (15 / 100)) then userPrompt
         else
           (let styleHint = join '' '' (filter (\<lambda>s. s \<noteq> [])
                  [if technique \<noteq> [] then ''Technique: '' @ technique @ ''.'' else '''',
                   if length moods \<noteq> 0 then ''Mood: '' @ join '', '' moods @ ''.'' else '''',
                   if length palette \<noteq> 0 then ''Palette: '' @ join '', '' (take 5 palette) @ ''.'' else '''']);
                strength = (if js_ge safeIntensity (lit (8 / 10)) then ''strict''
                            else if js_ge safeIntensity (lit (4 / 10)) then ''balanced''
                            else ''subtle'')
            in trim (userPrompt @ [newline, newline] @ ''Style guidance ('' @ strength @ '', ''
                     @ numberToString (Math_round (js_mul safeIntensity (Fin 100))) @ ''%): ''
                     @ styleHint)))"

text \<open>The shim of the legacy service module: \<^verbatim>\<open>fusePrompt\<close> forwards to \<^verbatim>\<open>performReasoning\<close>.\<close>

definition fusePrompt :: "string \<Rightarrow> StyleArg option \<Rightarrow> jsnum \<Rightarrow> string" where
  "fusePrompt userPrompt styleData intensity = performReasoning userPrompt styleData intensity"

subsection \<open>The guidance line in the words of the specification\<close>

text \<open>
  The specification describes the appended line by its parts: a strength label, the
  rounded percentage and a hint clause that joins the parts that are not empty. These
  definitions follow that description; the theorems compare them with
  \<open>performReasoning\<close>.
\<close>

definition strengthLabel :: "jsnum \<Rightarrow> string" where
  "strengthLabel si =
     (if js_ge si (lit (8 / 10)) then ''strict''
      else if js_ge si (lit (4 / 10)) then ''balanced'' else ''subtle'')"

definition styleTechnique :: "StyleArg option \<Rightarrow> string" where
  "styleTechnique s = orDefault (Option.bind s sd_visualTechnique) ''''"

definition styleMoods :: "StyleArg option \<Rightarrow> string list" where
  "styleMoods s = firstPresent (Option.bind s sd_moods) (Option.bind s sd_moodKeywords)"

definition stylePalette :: "StyleArg option \<Rightarrow> string list" where
  "stylePalette s = firstPresent (Option.bind s sd_palette) (Option.bind s sd_colorPalette)"

definition hintParts :: "StyleArg option \<Rightarrow> string list" where
  "hintParts s =
     (if styleTechnique s = [] then [] else [''Technique: '' @ styleTechnique s @ ''.''])
     @ (if styleMoods s = [] then [] else [''Mood: '' @ join '', '' (styleMoods s) @ ''.''])
     @ (if stylePalette s = [] then [] else [''Palette: '' @ join '', '' (take 5 (stylePalette s)) @ ''.''])"

definition hintClause :: "StyleArg option \<Rightarrow> string" where
  "hintClause s = join '' '' (hintParts s)"

definition guidanceLine :: "jsnum \<Rightarrow> StyleArg option \<Rightarrow> string" where
  "guidanceLine si s =
     ''Style guidance ('' @ strengthLabel si @ '', ''
       @ numberToString (Math_round (js_mul si (Fin 100))) @ ''%): '' @ hintClause s"

text \<open>The style of the specification's worked example.\<close>

definition inkWash :: "StyleArg option" where
  "inkWash = Some \<lparr> sd_palette = Some [''#111111''], sd_colorPalette = None,
                     sd_moods = Some [''calm''], sd_moodKeywords = None,
                     sd_visualTechnique = Some ''ink wash'' \<rparr>"

section \<open>The forwarding proxy\<close>











definition startsWith :: "string \<Rightarrow> string \<Rightarrow> bool" where
  "startsWith s p = (take (length p) s = p)"











section \<open>Style profiles: creation, edit and revert\<close>

text \<open>
  The types of the repository (\<^verbatim>\<open>StyleProfile\<close>, \<^verbatim>\<open>StyleSnapshot\<close>). The snapshot's
  \<^verbatim>\<open>data\<close> field has the TypeScript type
  \<^verbatim>\<open>Omit<StyleProfile, 'id' | 'createdAt' | 'history' | 'version'>\<close>: it is the record
  \<open>StyleData\<close> below, and a profile is that record extended by the four omitted fields.
  Optional fields (\<^verbatim>\<open>embedding?\<close>, \<^verbatim>\<open>reasoning?\<close>) are options. Version numbers and
  timestamps are JavaScript numbers holding integers; they are integers here (a version
  starts at 1 and grows by one per edit, far below \<open>2 ^ 53\<close> where doubles stop being
  exact).
\<close>

record StyleData =
  name :: string
  description :: string
  visualTechnique :: string
  palette :: "string list"
  moods :: "string list"
  referenceImages :: "string list"
  embedding :: "rat list option"
  reasoning :: "string option"

record StyleSnapshot =
  version_s :: int
  timestamp :: int
  changeLog :: string
  data :: StyleData

record StyleProfile = StyleData +
  id_p :: string
  createdAt :: int
  version :: int
  history :: "StyleSnapshot list"

subsection \<open>Operations\<close>

text \<open>
  \<^verbatim>\<open>handleStyleAnalyzed\<close> (App.tsx) builds the new profile; the fresh identifier
  (\<^verbatim>\<open>crypto.randomUUID()\<close>) and the clock (\<^verbatim>\<open>Date.now()\<close>) are arguments.
\<close>

definition handleStyleAnalyzed ::
  "string \<Rightarrow> int \<Rightarrow> StyleAnalysisResponse \<Rightarrow> string list \<Rightarrow> StyleProfile" where
  "handleStyleAnalyzed uuid now analysis images =
     \<lparr> name = sa_suggestedName analysis,
       description = sa_artisticStyle analysis,
       visualTechnique = sa_visualTechnique analysis,
       palette = sa_colorPalette analysis,
       moods = sa_moodKeywords analysis,
       referenceImages = images,
       embedding = sa_embedding analysis,
       reasoning = sa_reasoning analysis,
       id_p = uuid,
       createdAt = now,
       version = 1,
       history = [] \<rparr>"

text \<open>The eight fields both handlers copy from the profile into a snapshot's \<^verbatim>\<open>data\<close>.\<close>

definition dataOf :: "StyleProfile \<Rightarrow> StyleData" where
  "dataOf p =
     \<lparr> name = name p,
       description = description p,
       visualTechnique = visualTechnique p,
       palette = palette p,
       moods = moods p,
       referenceImages = referenceImages p,
       embedding = embedding p,
       reasoning = reasoning p \<rparr>"

text \<open>The editor's form state (the \<^verbatim>\<open>useState\<close> cells of StyleEditor.tsx).\<close>

record EditState =
  e_name :: string
  e_description :: string
  e_technique :: string
  e_palette :: "string list"
  e_moods :: "string list"

definition handleSave :: "StyleProfile \<Rightarrow> EditState \<Rightarrow> int \<Rightarrow> StyleProfile" where
  "handleSave styleProfile e now =
     (let snapshot = \<lparr> version_s = version styleProfile,
                        timestamp = now,
                        changeLog = ''Updated parameters manually'',
                        data = dataOf styleProfile \<rparr>
      in styleProfile
           \<lparr> version := version styleProfile + 1,
             history := snapshot # history styleProfile,
             name := e_name e,
             description := e_description e,
             visualTechnique := e_technique e,
             palette := e_palette e,
             moods := e_moods e \<rparr>)"

definition handleRevert :: "StyleProfile \<Rightarrow> StyleSnapshot \<Rightarrow> int \<Rightarrow> StyleProfile" where
  "handleRevert styleProfile snapshot now =
     (let currentSnapshot = \<lparr> version_s = version styleProfile,
                               timestamp = now,
                               changeLog = ''Reverted to v'' @ intToString (version_s snapshot),
                               data = dataOf styleProfile \<rparr>
      in styleProfile
           \<lparr> version := version styleProfile + 1,
             history := currentSnapshot # history styleProfile,
             name := name (data snapshot),
             description := description (data snapshot),
             visualTechnique := visualTechnique (data snapshot),
             palette := palette (data snapshot),
             moods := moods (data snapshot),
             referenceImages := referenceImages (data snapshot),
             embedding := embedding (data snapshot),
             reasoning := reasoning (data snapshot) \<rparr>)"

text \<open>A committed operation of the editor, and a run of them on one profile.\<close>

datatype EditorOp = Save EditState int | Revert StyleSnapshot int

fun applyOp :: "StyleProfile \<Rightarrow> EditorOp \<Rightarrow> StyleProfile" where
  "applyOp p (Save e now) = handleSave p e now"
| "applyOp p (Revert s now) = handleRevert p s now"

fun applyOps :: "StyleProfile \<Rightarrow> EditorOp list \<Rightarrow> StyleProfile" where
  "applyOps p [] = p"
| "applyOps p (x # xs) = applyOps (applyOp p x) xs"

text \<open>The profiles a run passes through before each of its operations, oldest first.\<close>

fun priorStates :: "StyleProfile \<Rightarrow> EditorOp list \<Rightarrow> StyleProfile list" where
  "priorStates p [] = []"
| "priorStates p (x # xs) = p # priorStates (applyOp p x) xs"

text \<open>An analysis result and an edit used as examples.\<close>

definition inkAnalysis :: StyleAnalysisResponse where
  "inkAnalysis =
     \<lparr> sa_artisticStyle = ''Ink'', sa_visualTechnique = ''ink wash'',
       sa_colorPalette = [''#111111''], sa_moodKeywords = [''calm''],
       sa_suggestedName = ''Ink study'', sa_embedding = Some [1, 2],
       sa_reasoning = Some ''Monochrome washes.'' \<rparr>"

definition boldEdit :: EditState where
  "boldEdit =
     \<lparr> e_name = ''Bold ink'', e_description = ''Ink'', e_technique = ''dry brush'',
       e_palette = [''#000000'', ''#ffffff''], e_moods = [''bold''] \<rparr>"

definition inkSnapshot :: StyleSnapshot where
  "inkSnapshot =
     \<lparr> version_s = 1, timestamp = 200, changeLog = ''Updated parameters manually'',
       data = \<lparr> name = ''Ink study'', description = ''Ink'', visualTechnique = ''ink wash'',
                palette = [''#111111''], moods = [''calm''], referenceImages = [''img''],
                embedding = Some [1, 2], reasoning = Some ''Monochrome washes.'' \<rparr> \<rparr>"

section \<open>Properties of edit and revert\<close>

lemma applyOp_version: "version (applyOp p x) = version p + 1"
  by (cases x) (simp_all add: handleSave_def handleRevert_def Let_def)

lemma applyOp_history:
  "\<exists>s. history (applyOp p x) = s # history p \<and> version_s s = version p \<and> data s = dataOf p"
  by (cases x) (simp_all add: handleSave_def handleRevert_def Let_def)

lemma applyOps_version: "version (applyOps p xs) = version p + int (length xs)"
  by (induction xs arbitrary: p) (simp_all add: applyOp_version)

lemma applyOps_history_versions:
  "map version_s (history (applyOps p xs)) =
     rev (map version (priorStates p xs)) @ map version_s (history p)"
proof (induction xs arbitrary: p)
  case Nil
  show ?case by simp
next
  case (Cons x xs)
  obtain s where s: "history (applyOp p x) = s # history p" "version_s s = version p"
    using applyOp_history by blast
  show ?case by (simp add: Cons.IH s)
qed

lemma applyOps_history_data:
  "map data (history (applyOps p xs)) =
     rev (map dataOf (priorStates p xs)) @ map data (history p)"
proof (induction xs arbitrary: p)
  case Nil
  show ?case by simp
next
  case (Cons x xs)
  obtain s where s: "history (applyOp p x) = s # history p" "data s = dataOf p"
    using applyOp_history by blast
  show ?case by (simp add: Cons.IH s)
qed

lemma applyOps_history_suffix:
  "drop (length xs) (history (applyOps p xs)) = history p \<and>
   length (history (applyOps p xs)) = length xs + length (history p)"
proof (induction xs arbitrary: p)
  case Nil
  show ?case by simp
next
  case (Cons x xs)
  obtain s where s: "history (applyOp p x) = s # history p"
    using applyOp_history by blast
  have len: "length (history (applyOps (applyOp p x) xs)) = length xs + length (history (applyOp p x))"
    using Cons.IH by blast
  have "drop (Suc (length xs)) (history (applyOps (applyOp p x) xs))
        = drop 1 (drop (length xs) (history (applyOps (applyOp p x) xs)))"
    by simp
  also have "\<dots> = drop 1 (history (applyOp p x))"
    using Cons.IH by simp
  also have "\<dots> = history p" by (simp add: s)
  finally show ?case using len by (simp add: s)
qed

lemma priorStates_versions:
  "map version (priorStates p xs) = map (\<lambda>i. version p + int i) [0 ..< length xs]"
proof (induction xs arbitrary: p)
  case Nil
  show ?case by simp
next
  case (Cons x xs)
  have "map version (priorStates (applyOp p x) xs)
        = map (\<lambda>i. version p + int (Suc i)) [0 ..< length xs]"
    by (simp add: Cons.IH applyOp_version add.assoc)
  then show ?case
    by (simp add: map_upt_Suc del: upt_Suc)
qed

lemma priorStates_take:
  "priorStates p xs = map (\<lambda>i. applyOps p (take i xs)) [0 ..< length xs]"
proof (induction xs arbitrary: p)
  case Nil
  show ?case by simp
next
  case (Cons x xs)
  have "priorStates (applyOp p x) xs
        = map (\<lambda>i. applyOps p (take (Suc i) (x # xs))) [0 ..< length xs]"
    by (simp add: Cons.IH)
  then show ?case
    by (simp add: map_upt_Suc del: upt_Suc)
qed

lemma applyOps_history_take:
  "map data (history (applyOps p xs)) =
     rev (map (\<lambda>i. dataOf (applyOps p (take i xs))) [0 ..< length xs]) @ map data (history p)"
  by (simp add: applyOps_history_data priorStates_take comp_def)

lemma intToString_one: "intToString 1 = ''1''"
  by code_simp

text \<open>
  Claim C3. A profile is created at version 1 with an empty history. A save and a revert
  each add exactly one to \<open>version\<close> and put one snapshot in front of the history; that
  snapshot carries the version number the profile had before the change and, field by
  field, its name, description, visualTechnique, palette, moods, referenceImages, embedding
  and reasoning before the change. After any run \<open>xs\<close> of saves and reverts the version has
  grown by the number of operations and the history has grown by as many entries; entry
  number \<open>length xs - 1 - i\<close> of the history is the snapshot of the state before operation
  \<open>i\<close> (the profile after the first \<open>i\<close> operations): it has that state's version number
  \<open>version p + i\<close> and that state's eight data fields. The history the run started from is
  still there, unchanged, behind the new entries. For a run that starts at a newly
  created profile the history's version numbers are \<open>n, \<dots>, 2, 1\<close>.
\<close>

theorem C3_version_history:
  "version (handleStyleAnalyzed uuid now a imgs) = 1
   \<and> history (handleStyleAnalyzed uuid now a imgs) = []
   \<and> version (handleSave p e t) = version p + 1
   \<and> history (handleSave p e t) =
        \<lparr> version_s = version p, timestamp = t,
          changeLog = ''Updated parameters manually'',
          data = \<lparr> name = name p, description = description p,
                   visualTechnique = visualTechnique p, palette = palette p,
                   moods = moods p, referenceImages = referenceImages p,
                   embedding = embedding p, reasoning = reasoning p \<rparr> \<rparr> # history p
   \<and> version (handleRevert p s t) = version p + 1
   \<and> history (handleRevert p s t) =
        \<lparr> version_s = version p, timestamp = t,
          changeLog = ''Reverted to v'' @ intToString (version_s s),
          data = \<lparr> name = name p, description = description p,
                   visualTechnique = visualTechnique p, palette = palette p,
                   moods = moods p, referenceImages = referenceImages p,
                   embedding = embedding p, reasoning = reasoning p \<rparr> \<rparr> # history p
   \<and> version (applyOps p xs) = version p + int (length xs)
   \<and> length (history (applyOps p xs)) = length xs + length (history p)
   \<and> map version_s (history (applyOps p xs)) =
        rev (map (\<lambda>i. version (applyOps p (take i xs))) [0 ..< length xs])
        @ map version_s (history p)
   \<and> map version_s (history (applyOps p xs)) =
        rev (map (\<lambda>i. version p + int i) [0 ..< length xs]) @ map version_s (history p)
   \<and> map data (history (applyOps p xs)) =
        rev (map (\<lambda>i. \<lparr> name = name (applyOps p (take i xs)),
                         description = description (applyOps p (take i xs)),
                         visualTechnique = visualTechnique (applyOps p (take i xs)),
                         palette = palette (applyOps p (take i xs)),
                         moods = moods (applyOps p (take i xs)),
                         referenceImages = referenceImages (applyOps p (take i xs)),
                         embedding = embedding (applyOps p (take i xs)),
                         reasoning = reasoning (applyOps p (take i xs)) \<rparr>)
               [0 ..< length xs])
        @ map data (history p)
   \<and> drop (length xs) (history (applyOps p xs)) = history p
   \<and> map version_s (history (applyOps (handleStyleAnalyzed uuid now a imgs) xs)) =
        rev (map (\<lambda>i. 1 + int i) [0 ..< length xs])"
proof -
  let ?p0 = "handleStyleAnalyzed uuid now a imgs"
  have v0: "version ?p0 = 1" and h0: "history ?p0 = []"
    by (simp_all add: handleStyleAnalyzed_def)
  have save: "version (handleSave p e t) = version p + 1"
    "history (handleSave p e t) =
        \<lparr> version_s = version p, timestamp = t,
          changeLog = ''Updated parameters manually'',
          data = \<lparr> name = name p, description = description p,
                   visualTechnique = visualTechnique p, palette = palette p,
                   moods = moods p, referenceImages = referenceImages p,
                   embedding = embedding p, reasoning = reasoning p \<rparr> \<rparr> # history p"
    by (simp_all add: handleSave_def dataOf_def Let_def)
  have revert: "version (handleRevert p s t) = version p + 1"
    "history (handleRevert p s t) =
        \<lparr> version_s = version p, timestamp = t,
          changeLog = ''Reverted to v'' @ intToString (version_s s),
          data = \<lparr> name = name p, description = description p,
                   visualTechnique = visualTechnique p, palette = palette p,
                   moods = moods p, referenceImages = referenceImages p,
                   embedding = embedding p, reasoning = reasoning p \<rparr> \<rparr> # history p"
    by (simp_all add: handleRevert_def dataOf_def Let_def)
  have len: "length (history (applyOps p xs)) = length xs + length (history p)"
    and suffix: "drop (length xs) (history (applyOps p xs)) = history p"
    using applyOps_history_suffix [of xs p] by simp_all
  have vers: "map version_s (history (applyOps p xs)) =
        rev (map (\<lambda>i. version (applyOps p (take i xs))) [0 ..< length xs])
        @ map version_s (history p)"
    by (simp add: applyOps_history_versions priorStates_take comp_def)
  have nums: "map version_s (history (applyOps p xs)) =
        rev (map (\<lambda>i. version p + int i) [0 ..< length xs]) @ map version_s (history p)"
    by (simp add: applyOps_history_versions priorStates_versions)
  have dat: "map data (history (applyOps p xs)) =
        rev (map (\<lambda>i. \<lparr> name = name (applyOps p (take i xs)),
                         description = description (applyOps p (take i xs)),
                         visualTechnique = visualTechnique (applyOps p (take i xs)),
                         palette = palette (applyOps p (take i xs)),
                         moods = moods (applyOps p (take i xs)),
                         referenceImages = referenceImages (applyOps p (take i xs)),
                         embedding = embedding (applyOps p (take i xs)),
                         reasoning = reasoning (applyOps p (take i xs)) \<rparr>)
               [0 ..< length xs])
        @ map data (history p)"
    using applyOps_history_take [of p xs] by (simp only: dataOf_def)
  have fresh: "map version_s (history (applyOps ?p0 xs)) =
        rev (map (\<lambda>i. 1 + int i) [0 ..< length xs])"
    using applyOps_history_versions [of ?p0 xs] priorStates_versions [of ?p0 xs]
    by (simp add: v0 h0)
  show ?thesis
    by (intro conjI v0 h0 save revert applyOps_version len vers nums dat suffix fresh)
qed

theorem C3_version_history_witness:
  "version (applyOps (handleStyleAnalyzed ''id-1'' 100 inkAnalysis [''img''])
              [Save boldEdit 200, Revert inkSnapshot 300]) = 3
   \<and> history (applyOps (handleStyleAnalyzed ''id-1'' 100 inkAnalysis [''img''])
                [Save boldEdit 200, Revert inkSnapshot 300]) =
       [\<lparr> version_s = 2, timestamp = 300, changeLog = ''Reverted to v1'',
          data = \<lparr> name = ''Bold ink'', description = ''Ink'', visualTechnique = ''dry brush'',
                   palette = [''#000000'', ''#ffffff''], moods = [''bold''],
                   referenceImages = [''img''], embedding = Some [1, 2],
                   reasoning = Some ''Monochrome washes.'' \<rparr> \<rparr>,
        inkSnapshot]
   \<and> name (applyOps (handleStyleAnalyzed ''id-1'' 100 inkAnalysis [''img''])
              [Save boldEdit 200, Revert inkSnapshot 300]) = ''Ink study''"
proof -
  let ?p0 = "handleStyleAnalyzed ''id-1'' 100 inkAnalysis [''img'']"
  let ?p1 = "handleSave ?p0 boldEdit 200"
  let ?p2 = "handleRevert ?p1 inkSnapshot 300"
  note T0 = C3_version_history [where uuid = "''id-1''" and now = 100 and a = inkAnalysis
      and imgs = "[''img'']" and p = ?p0 and e = boldEdit and t = 200 and xs = "[]"]
  note T1 = C3_version_history [where p = ?p1 and s = inkSnapshot and t = 300 and xs = "[]"]
  have run: "applyOps ?p0 [Save boldEdit 200, Revert inkSnapshot 300] = ?p2"
    by simp
  have v0: "version ?p0 = 1" and h0: "history ?p0 = []"
    using T0 by blast+
  have v1: "version ?p1 = 2"
    using T0 [THEN conjunct2, THEN conjunct2, THEN conjunct1] v0 by simp
  have h1: "history ?p1 = [inkSnapshot]"
    using T0 [THEN conjunct2, THEN conjunct2, THEN conjunct2, THEN conjunct1]
    by (simp add: v0 h0 inkSnapshot_def handleStyleAnalyzed_def inkAnalysis_def)
  have v2: "version ?p2 = 3"
    using T1 [THEN conjunct2, THEN conjunct2, THEN conjunct2, THEN conjunct2, THEN conjunct1] v1
    by simp
  have f1: "name ?p1 = ''Bold ink''" "description ?p1 = ''Ink''"
    "visualTechnique ?p1 = ''dry brush''" "palette ?p1 = [''#000000'', ''#ffffff'']"
    "moods ?p1 = [''bold'']" "referenceImages ?p1 = [''img'']"
    "embedding ?p1 = Some [1, 2]" "reasoning ?p1 = Some ''Monochrome washes.''"
    by (simp_all add: handleSave_def handleStyleAnalyzed_def Let_def boldEdit_def inkAnalysis_def)
  have s1: "version_s inkSnapshot = 1"
    by (simp add: inkSnapshot_def)
  have h2: "history ?p2 =
       [\<lparr> version_s = 2, timestamp = 300, changeLog = ''Reverted to v1'',
          data = \<lparr> name = ''Bold ink'', description = ''Ink'', visualTechnique = ''dry brush'',
                   palette = [''#000000'', ''#ffffff''], moods = [''bold''],
                   referenceImages = [''img''], embedding = Some [1, 2],
                   reasoning = Some ''Monochrome washes.'' \<rparr> \<rparr>,
        inkSnapshot]"
    using T1 [THEN conjunct2, THEN conjunct2, THEN conjunct2, THEN conjunct2, THEN conjunct2,
        THEN conjunct1]
    by (simp only: v1 h1 f1 s1 intToString_one) simp
  have n2: "name ?p2 = ''Ink study''"
    by (simp add: handleRevert_def Let_def inkSnapshot_def)
  show ?thesis
    by (simp only: run v2 h2 n2 simp_thms)
qed

text \<open>
  Claim C10. A save and a revert leave \<open>id\<close> and \<open>createdAt\<close> as they were; a save also
  leaves \<open>referenceImages\<close>, \<open>embedding\<close> and \<open>reasoning\<close> as they were. A save replaces
  nothing but name, description, visualTechnique, palette, moods, version and history:
  putting the old values of these seven fields back gives the old profile.
\<close>

theorem C10_edit_revert_frame:
  "id_p (handleSave p e t) = id_p p
   \<and> createdAt (handleSave p e t) = createdAt p
   \<and> referenceImages (handleSave p e t) = referenceImages p
   \<and> embedding (handleSave p e t) = embedding p
   \<and> reasoning (handleSave p e t) = reasoning p
   \<and> id_p (handleRevert p s t) = id_p p
   \<and> createdAt (handleRevert p s t) = createdAt p
   \<and> (handleSave p e t)
        \<lparr> name := name p, description := description p,
          visualTechnique := visualTechnique p, palette := palette p, moods := moods p,
          version := version p, history := history p \<rparr> = p"
  by (simp add: handleSave_def handleRevert_def Let_def)

section \<open>Properties of the colour quantizer\<close>

lemma and15: "(x::nat) AND 15 = x mod 16"
proof -
  have "x AND mask 4 = take_bit 4 x" by (simp add: take_bit_eq_mask)
  then show ?thesis by (simp add: take_bit_eq_mod mask_eq_exp_minus_1)
qed

lemma shiftRight4_lt: "shiftRight4 v < 16"
proof (cases v)
  case None
  then show ?thesis by (simp add: shiftRight4_def)
next
  case (Some w)
  have "unat w < 256" using unsigned_less [of w] by simp
  then show ?thesis by (simp add: Some shiftRight4_def drop_bit_eq_div)
qed

lemma or_low:
  assumes "b < 2 ^ n"
  shows "push_bit n a OR b = push_bit n a + (b::nat)"
proof -
  have b: "take_bit n b = b" using assms by (simp add: take_bit_nat_eq_self)
  have "push_bit n a AND take_bit n b = 0"
    by (simp add: bit_eq_iff bit_simps)
  then have "push_bit n a + take_bit n b = push_bit n a OR take_bit n b"
    by (rule disjunctive_add_eq_or)
  then show ?thesis by (simp add: b)
qed

lemma or_pack:
  assumes "g < 16" "b < (16::nat)"
  shows "push_bit 8 r OR push_bit 4 g OR b = r * 256 + g * 16 + b"
proof -
  have 1: "push_bit 4 g OR b = push_bit 4 g + b"
    using assms(2) by (intro or_low) simp
  have "push_bit 4 g + b < 2 ^ 8" using assms by (simp add: push_bit_eq_mult)
  then have 2: "push_bit 8 r OR (push_bit 4 g + b) = push_bit 8 r + (push_bit 4 g + b)"
    by (rule or_low)
  show ?thesis
    unfolding or.assoc 1 2 by (simp add: push_bit_eq_mult)
qed

lemma bucketKey_eq:
  "bucketKey dat i =
     shiftRight4 (elemAt dat i) * 256 + shiftRight4 (elemAt dat (i + 1)) * 16
       + shiftRight4 (elemAt dat (i + 2))"
  by (simp add: bucketKey_def Let_def or_pack shiftRight4_lt)

lemma bucketKey_lt: "bucketKey dat i < 4096"
proof -
  have "shiftRight4 (elemAt dat i) < 16" "shiftRight4 (elemAt dat (i + 1)) < 16"
    "shiftRight4 (elemAt dat (i + 2)) < 16"
    by (rule shiftRight4_lt)+
  then show ?thesis unfolding bucketKey_eq by linarith
qed

lemma key_levels:
  assumes "key < (4096::nat)"
  shows "key = (drop_bit 8 key AND 15) * 256 + (drop_bit 4 key AND 15) * 16 + (key AND 15)"
proof -
  have a: "key div 256 mod 16 = key div 256"
    using assms by simp
  have "key mod (16 * 16) = 16 * (key div 16 mod 16) + key mod 16"
    by (rule mod_mult2_eq)
  then have b: "key mod 256 = 16 * (key div 16 mod 16) + key mod 16"
    by simp
  have "key = 256 * (key div 256) + key mod 256"
    by simp
  then show ?thesis
    unfolding and15 drop_bit_eq_div using a b by simp
qed

lemma and15_lt: "(x::nat) AND 15 < 16"
  by (simp add: and15)

lemma floor_half: "\<lfloor>(of_nat n :: rat) + 1 / 2\<rfloor> = int n"
  by (rule floor_unique) simp_all

lemma clamp_byte:
  assumes "n \<le> 255"
  shows "clamp (Math_round (Fin (of_nat n))) (Fin 0) (Fin 255) = Fin (of_nat n)"
  using assms by (simp add: clamp_def Math_max_def Math_min_def floor_half)

lemma toString16_nat: "toString16 (Fin (of_nat n)) = natToString 16 n"
  by simp

lemma digit_chars: "digitChar 0 = CHR ''0''" "digitChar 8 = CHR ''8''"
  by (simp_all add: digitChar_def)

lemma hexByte:
  assumes "l < 16"
  shows "padStart 2 CHR ''0'' (natToString 16 (l * 16 + 8)) = [digitChar l, CHR ''8'']"
proof (cases "l = 0")
  case True
  then show ?thesis
    by (simp add: natToString.simps [of 16 8] padStart_def digit_chars)
next
  case False
  have "natToString 16 (l * 16 + 8) = natToString 16 l @ [digitChar 8]"
    using False by (subst natToString.simps) simp
  also have "natToString 16 l = [digitChar l]"
    using assms by (subst natToString.simps) simp
  finally show ?thesis
    by (simp add: padStart_def digit_chars)
qed

lemma hexChannel:
  assumes "l < 16"
  shows "padStart 2 CHR ''0''
           (toString16 (clamp (Math_round (Fin (of_nat (l * 16 + 8)))) (Fin 0) (Fin 255)))
         = [digitChar l, CHR ''8'']"
proof -
  have "l * 16 + 8 \<le> 255" using assms by simp
  then have "clamp (Math_round (Fin (of_nat (l * 16 + 8)))) (Fin 0) (Fin 255)
               = Fin (of_nat (l * 16 + 8))"
    by (rule clamp_byte)
  then show ?thesis
    by (simp only: toString16_nat hexByte [OF assms])
qed

lemma hexOfKey_shape:
  "hexOfKey key =
     [CHR ''#'', digitChar (drop_bit 8 key AND 15), CHR ''8'',
      digitChar (drop_bit 4 key AND 15), CHR ''8'', digitChar (key AND 15), CHR ''8'']"
  unfolding hexOfKey_def Let_def rgbToHex_def
  by (simp only: list.map concat.simps hexChannel [OF and15_lt] append.simps)

lemma digitChar_inj:
  assumes "a < 16" "b < 16" "digitChar a = digitChar b"
  shows "a = b"
proof -
  have d: "distinct ''0123456789abcdef''" by simp
  have "a < length ''0123456789abcdef''" "b < length ''0123456789abcdef''"
    using assms by simp_all
  with d assms(3) show ?thesis
    unfolding digitChar_def by (simp only: nth_eq_iff_index_eq)
qed


lemma hexOfKey_inj:
  assumes "k1 < 4096" "k2 < 4096" "hexOfKey k1 = hexOfKey k2"
  shows "k1 = k2"
proof -
  from assms(3) have
    "digitChar (drop_bit 8 k1 AND 15) = digitChar (drop_bit 8 k2 AND 15)"
    "digitChar (drop_bit 4 k1 AND 15) = digitChar (drop_bit 4 k2 AND 15)"
    "digitChar (k1 AND 15) = digitChar (k2 AND 15)"
    by (simp_all add: hexOfKey_shape)
  then have "drop_bit 8 k1 AND 15 = drop_bit 8 k2 AND 15"
    "drop_bit 4 k1 AND 15 = drop_bit 4 k2 AND 15" "k1 AND 15 = k2 AND 15"
    by (auto intro: digitChar_inj and15_lt)
  then show ?thesis
    using key_levels [OF assms(1)] key_levels [OF assms(2)] by simp
qed


lemma map_of_mapSet: "map_of (mapSet h k v) = (map_of h)(k \<mapsto> v)"
  by (induction h k v rule: mapSet.induct) auto

lemma keys_mapSet:
  "map fst (mapSet h k v) = (if k \<in> set (map fst h) then map fst h else map fst h @ [k])"
  by (induction h k v rule: mapSet.induct) auto

lemma mapGet0_addKey:
  "mapGet0 (addKey h k) k' = (if k' = k then mapGet0 h k + 1 else mapGet0 h k')"
  by (simp add: addKey_def mapGet0_def map_of_mapSet)

lemma keys_addKey:
  "fst ` set (addKey h k) = insert k (fst ` set h)"
  "distinct (map fst (addKey h k)) = distinct (map fst h)"
proof -
  have "set (map fst (addKey h k)) = insert k (set (map fst h))"
    by (auto simp: addKey_def keys_mapSet)
  then show "fst ` set (addKey h k) = insert k (fst ` set h)" by simp
  show "distinct (map fst (addKey h k)) = distinct (map fst h)"
    by (auto simp: addKey_def keys_mapSet)
qed

lemma foldl_addKey_count:
  "mapGet0 (foldl addKey h ks) k = mapGet0 h k + count_list ks k"
  by (induction ks arbitrary: h) (simp_all add: mapGet0_addKey)

lemma foldl_addKey_keys:
  "fst ` set (foldl addKey h ks) = fst ` set h \<union> set ks"
  by (induction ks arbitrary: h) (simp_all add: keys_addKey)

lemma foldl_addKey_distinct:
  "distinct (map fst (foldl addKey h ks)) = distinct (map fst h)"
  by (induction ks arbitrary: h) (simp_all add: keys_addKey)

lemma offsets_step:
  assumes "i mod 12 = 0" "i < n"
  shows "filter (\<lambda>j. j mod 12 = 0) [i ..< n] = i # filter (\<lambda>j. j mod 12 = 0) [i + 12 ..< n]"
proof -
  have none: "filter (\<lambda>j. j mod 12 = 0) [Suc i ..< m] = []" if "m \<le> i + 12" for m
  proof -
    have "j mod 12 \<noteq> 0" if "Suc i \<le> j" "j < m" for j
    proof
      assume "j mod 12 = 0"
      then have "12 dvd j" by presburger
      moreover have "12 dvd i" using assms(1) by presburger
      ultimately have "12 dvd (j - i)" by (rule dvd_diff_nat)
      moreover have "0 < j - i" "j - i < 12" using that \<open>m \<le> i + 12\<close> by simp_all
      ultimately show False by (auto dest: dvd_imp_le)
    qed
    then show ?thesis by (simp add: filter_empty_conv)
  qed
  have split: "[Suc i ..< n] = [Suc i ..< min n (i + 12)] @ [i + 12 ..< n]"
  proof (cases "i + 12 \<le> n")
    case True
    then obtain k where k: "n = i + 12 + k"
      using le_Suc_ex by blast
    have "[Suc i ..< i + 12 + k] = [Suc i ..< i + 12] @ [i + 12 ..< i + 12 + k]"
      by (rule upt_add_eq_append) simp
    then have "[Suc i ..< n] = [Suc i ..< i + 12] @ [i + 12 ..< n]"
      by (simp only: k)
    with True show ?thesis by (simp add: min_def)
  next
    case False
    then show ?thesis by simp
  qed
  have "[i ..< n] = i # [Suc i ..< n]"
    using assms(2) by (rule upt_conv_Cons)
  then have "filter (\<lambda>j. j mod 12 = 0) [i ..< n]
      = i # filter (\<lambda>j. j mod 12 = 0) [Suc i ..< n]"
    using assms(1) by simp
  also have "filter (\<lambda>j. j mod 12 = 0) [Suc i ..< n]
      = filter (\<lambda>j. j mod 12 = 0) [Suc i ..< min n (i + 12)]
        @ filter (\<lambda>j. j mod 12 = 0) [i + 12 ..< n]"
    by (subst split) simp
  also have "filter (\<lambda>j. j mod 12 = 0) [Suc i ..< min n (i + 12)] = []"
    by (rule none) simp
  finally show ?thesis by simp
qed

lemma pixelLoop_foldl:
  "i mod 12 = 0 \<Longrightarrow>
     pixelLoop dat i h =
       foldl addKey h (map (bucketKey dat)
         (filter (\<lambda>j. \<not> alphaBelow220 (elemAt dat (j + 3)))
           (filter (\<lambda>j. j mod 12 = 0) [i ..< length dat])))"
proof (induction dat i h rule: pixelLoop.induct)
  case (1 dat i h)
  show ?case
  proof (cases "i < length dat")
    case False
    then show ?thesis by (simp add: pixelLoop.simps [of dat i h])
  next
    case True
    have m: "(i + 12) mod 12 = 0" using "1.prems" by presburger
    note st = offsets_step [OF "1.prems" True]
    show ?thesis
    proof (cases "alphaBelow220 (elemAt dat (i + 3))")
      case a: True
      show ?thesis
        using "1.IH"(1) [OF True a m] True a
        by (simp add: pixelLoop.simps [of dat i h] st)
    next
      case a: False
      show ?thesis
        using "1.IH"(2) [OF True a m] True a
        by (simp add: pixelLoop.simps [of dat i h] st)
    qed
  qed
qed

lemma pixelLoop_kept: "pixelLoop dat 0 h = foldl addKey h (keptKeys dat)"
  using pixelLoop_foldl [of 0 dat h] by (simp add: keptKeys_def sampleOffsets_def)

lemma fileLoop_foldl:
  "fileLoop files h = Inr h' \<Longrightarrow> h' = foldl addKey h (sampledKeys files)"
  by (induction files h rule: fileLoop.induct) (simp_all add: pixelLoop_kept)

lemma collect_take:
  assumes "distinct (map (\<lambda>e. hexOfKey (fst e)) xs)"
    and "set (map (\<lambda>e. hexOfKey (fst e)) xs) \<inter> set colors = {}"
    and "int (length colors) < count"
  shows "collect xs count colors
           = colors @ take (nat count - length colors) (map (\<lambda>e. hexOfKey (fst e)) xs)"
  using assms
proof (induction xs arbitrary: colors)
  case Nil
  then show ?case by simp
next
  case (Cons x xs)
  obtain key c where x: "x = (key, c)" by (cases x)
  let ?hex = "hexOfKey key"
  let ?colors' = "colors @ [?hex]"
  have notin: "?hex \<notin> set colors"
    using Cons.prems(2) by (auto simp: x)
  have pos: "0 < nat count - length colors"
    using Cons.prems(3) by linarith
  show ?case
  proof (cases "count \<le> int (length ?colors')")
    case True
    then have "nat count - length colors = 1"
      using Cons.prems(3) by simp
    then show ?thesis
      using True notin by (simp add: x Let_def)
  next
    case False
    have d: "distinct (map (\<lambda>e. hexOfKey (fst e)) xs)"
      using Cons.prems(1) by simp
    have i: "set (map (\<lambda>e. hexOfKey (fst e)) xs) \<inter> set ?colors' = {}"
      using Cons.prems(1,2) by (auto simp: x)
    have l: "int (length ?colors') < count"
      using False by simp
    have "collect xs count ?colors'
            = ?colors' @ take (nat count - length ?colors') (map (\<lambda>e. hexOfKey (fst e)) xs)"
      by (rule Cons.IH [OF d i l])
    moreover have "take (nat count - length colors) (map (\<lambda>e. hexOfKey (fst e)) (x # xs))
            = ?hex # take (nat count - length ?colors') (map (\<lambda>e. hexOfKey (fst e)) xs)"
    proof -
      have "nat count - length colors = Suc (nat count - length ?colors')"
        using pos by simp
      then show ?thesis by (simp add: x)
    qed
    ultimately show ?thesis
      using False notin by (simp add: x Let_def)
  qed
qed

lemma keptKeys_lt: "key \<in> set (keptKeys dat) \<Longrightarrow> key < 4096"
  by (auto simp: keptKeys_def bucketKey_lt)

lemma sampledKeys_lt: "key \<in> set (sampledKeys files) \<Longrightarrow> key < 4096"
  by (induction files rule: sampledKeys.induct) (auto dest: keptKeys_lt)

lemma histogram_facts:
  assumes "fileLoop files [] = Inr h"
  shows "distinct (map fst h)"
    and "fst ` set h = set (sampledKeys files)"
    and "e \<in> set h \<Longrightarrow> snd e = pixelFrequency files (fst e)"
proof -
  have h: "h = foldl addKey [] (sampledKeys files)"
    using assms by (rule fileLoop_foldl)
  show d: "distinct (map fst h)"
    by (simp add: h foldl_addKey_distinct)
  show "fst ` set h = set (sampledKeys files)"
    by (simp add: h foldl_addKey_keys)
  assume "e \<in> set h"
  then have "map_of h (fst e) = Some (snd e)"
    using d map_of_is_SomeI [of h "fst e" "snd e"] by simp
  then have "mapGet0 h (fst e) = snd e"
    by (simp add: mapGet0_def)
  moreover have "mapGet0 h (fst e) = mapGet0 [] (fst e) + pixelFrequency files (fst e)"
    by (simp only: h foldl_addKey_count pixelFrequency_def)
  moreover have "mapGet0 [] (fst e) = 0"
    by (simp add: mapGet0_def)
  ultimately show "snd e = pixelFrequency files (fst e)" by simp
qed

lemma sortEntries_facts:
  "set (sortEntries h) = set h"
  "distinct (map fst (sortEntries h)) = distinct (map fst h)"
  "length (sortEntries h) = length h"
  "sorted_wrt (\<lambda>a b. snd b \<le> snd a) (sortEntries h)"
proof -
  show s: "set (sortEntries h) = set h" by (simp add: sortEntries_def)
  show "length (sortEntries h) = length h" by (simp add: sortEntries_def)
  have "distinct (sortEntries h) = distinct h" by (simp add: sortEntries_def)
  then show "distinct (map fst (sortEntries h)) = distinct (map fst h)"
    by (simp add: distinct_map s)
  have "sorted (map (\<lambda>e. - int (snd e)) (sortEntries h))"
    unfolding sortEntries_def by (rule sorted_sort_key)
  then show "sorted_wrt (\<lambda>a b. snd b \<le> snd a) (sortEntries h)"
    by (simp add: sorted_map)
qed

lemma palette_is_take:
  assumes "fileLoop files [] = Inr h" and "0 \<le> k"
  shows "extractDominantPalette files k
           = Inr (map hexOfKey (take (nat k) (map fst (sortEntries h))))"
proof -
  let ?s = "sortEntries h"
  let ?top = "slice0 ?s (max (k * 3) k)"
  have top: "?top = take (nat (k * 3)) ?s"
    using assms(2) by (simp add: slice0_def max_def)
  have keys_lt: "key < 4096" if "key \<in> set (map fst ?s)" for key
  proof -
    from that have "key \<in> fst ` set h" by (simp add: sortEntries_facts)
    then show ?thesis
      using histogram_facts(2) [OF assms(1)] sampledKeys_lt by blast
  qed
  have inj: "inj_on hexOfKey (set (map fst ?s))"
    by (rule inj_onI) (blast intro: hexOfKey_inj keys_lt)
  have dk: "distinct (map fst ?s)"
    using histogram_facts(1) [OF assms(1)] by (simp add: sortEntries_facts)
  have "distinct (map hexOfKey (map fst ?s))"
    unfolding distinct_map [of hexOfKey "map fst ?s"] using inj dk by blast
  then have ds: "distinct (map (\<lambda>e. hexOfKey (fst e)) ?s)"
    by (simp add: comp_def)
  have dt: "distinct (map (\<lambda>e. hexOfKey (fst e)) ?top)"
    unfolding top using ds by (simp add: take_map [symmetric] distinct_take)
  have res: "collect ?top k [] = take (nat k) (map (\<lambda>e. hexOfKey (fst e)) ?s)"
  proof (cases "k = 0")
    case True
    then show ?thesis by (simp add: slice0_def)
  next
    case False
    then have "int (length ([] :: string list)) < k" using assms(2) by simp
    from collect_take [OF dt _ this]
    have "collect ?top k [] = take (nat k) (map (\<lambda>e. hexOfKey (fst e)) ?top)"
      by simp
    also have "\<dots> = take (nat k) (map (\<lambda>e. hexOfKey (fst e)) ?s)"
      unfolding top using assms(2) by (simp add: take_map min_def nat_mult_distrib)
    finally show ?thesis .
  qed
  show ?thesis
    by (simp add: extractDominantPalette_def assms(1) Let_def res take_map comp_def)
qed





lemma nth_solid:
  "i < 4 * n \<Longrightarrow> concat (replicate n [a, b, c, d]) ! i = [a, b, c, d] ! (i mod 4)"
proof (induction n arbitrary: i)
  case 0
  then show ?case by simp
next
  case (Suc n)
  have c: "concat (replicate (Suc n) [a, b, c, d]) = [a, b, c, d] @ concat (replicate n [a, b, c, d])"
    by simp
  show ?case
  proof (cases "i < 4")
    case True
    then show ?thesis by (simp only: c nth_append) simp
  next
    case False
    then have "concat (replicate (Suc n) [a, b, c, d]) ! i
                 = concat (replicate n [a, b, c, d]) ! (i - 4)"
      by (simp only: c nth_append) (simp add: eval_nat_numeral)
    also have "\<dots> = [a, b, c, d] ! ((i - 4) mod 4)"
      using Suc.prems False by (intro Suc.IH) simp
    also have "(i - 4) mod 4 = i mod 4"
      using False by (simp add: le_mod_geq)
    finally show ?thesis .
  qed
qed

lemma length_solid: "length (concat (replicate n [a, b, c, d])) = 4 * n"
  by (induction n) simp_all

lemma elem_solid:
  fixes dat :: "8 word list"
  assumes dat: "dat = concat (replicate n [a, b, c, d])"
    and "i mod 4 = 0" "i + 3 < 4 * n" "r < 4"
  shows "elemAt dat (i + r) = Some ([a, b, c, d] ! r)"
proof -
  have len: "length dat = 4 * n" by (simp add: dat length_solid)
  have lt: "i + r < 4 * n" using assms(3,4) by simp
  have "(i + r) mod 4 = r" using assms(2,4) by presburger
  with nth_solid [OF lt, of a b c d] have "dat ! (i + r) = [a, b, c, d] ! r"
    by (simp only: dat)
  then show ?thesis
    using lt by (simp only: elemAt_def len if_True)
qed

lemma solid_offset:
  fixes dat :: "8 word list"
  assumes dat: "dat = concat (replicate n [51, 102, 204, 255])"
    and i: "i mod 12 = 0" "i < length dat"
  shows "\<not> alphaBelow220 (elemAt dat (i + 3))" and "bucketKey dat i = 876"
proof -
  have len: "length dat = 4 * n" by (simp add: dat length_solid)
  have m4: "i mod 4 = 0" using i(1) by presburger
  then have "4 dvd i" by presburger
  moreover have "4 dvd 4 * n" by simp
  ultimately have "4 dvd (4 * n - i)" by (rule dvd_diff_nat [rotated])
  moreover have "0 < 4 * n - i" using i(2) len by simp
  ultimately have "4 \<le> 4 * n - i" by (auto dest: dvd_imp_le)
  then have in_range: "i + 3 < 4 * n" by simp
  note el = elem_solid [OF dat m4 in_range]
  have e0: "elemAt dat i = Some 51"
    using el [of 0] by simp
  have e1: "elemAt dat (i + 1) = Some 102"
    using el [of 1] by simp
  have e2: "elemAt dat (i + 2) = Some 204"
    using el [of 2] by simp
  have e3: "elemAt dat (i + 3) = Some 255"
    using el [of 3] by simp
  show "\<not> alphaBelow220 (elemAt dat (i + 3))"
    unfolding e3 by (simp add: alphaBelow220_def)
  show "bucketKey dat i = 876"
    unfolding bucketKey_eq e0 e1 e2 by (simp add: shiftRight4_def drop_bit_eq_div)
qed

lemma solid_keptKeys:
  fixes dat :: "8 word list"
  assumes dat: "dat = concat (replicate n [51, 102, 204, 255])" and n: "0 < n"
  shows "set (keptKeys dat) = {876}"
proof -
  have len: "length dat = 4 * n" by (simp add: dat length_solid)
  have zero: "0 \<in> set (sampleOffsets dat)"
    using n by (simp add: sampleOffsets_def len)
  have all: "i mod 12 = 0 \<and> i < length dat" if "i \<in> set (sampleOffsets dat)" for i
    using that by (simp add: sampleOffsets_def)
  have keep: "filter (\<lambda>i. \<not> alphaBelow220 (elemAt dat (i + 3))) (sampleOffsets dat)
                = sampleOffsets dat"
    using all solid_offset(1) [OF dat] by (simp add: filter_id_conv)
  have "set (keptKeys dat) = bucketKey dat ` set (sampleOffsets dat)"
    by (simp add: keptKeys_def keep)
  also have "\<dots> = {876}"
    using zero all solid_offset(2) [OF dat] by auto
  finally show ?thesis .
qed

lemma single_key:
  assumes "distinct (map fst h)" "fst ` set h = {a}"
  shows "map fst h = [a]"
proof -
  have "set (map fst h) = {a}" using assms(2) by simp
  moreover have "card (set (map fst h)) = length (map fst h)"
    using assms(1) by (rule distinct_card)
  ultimately have "length (map fst h) = 1" by simp
  then obtain x where x: "map fst h = [x]"
    by (cases "map fst h") auto
  with \<open>set (map fst h) = {a}\<close> show ?thesis by simp
qed

lemma hexOfKey_876: "hexOfKey 876 = ''#3868c8''"
  by (simp add: hexOfKey_shape and15 drop_bit_eq_div digitChar_def)

lemma decode_3868c8: "hexToRgb ''#3868c8'' = (Fin 56, Fin 104, Fin 200)"
  by code_simp

lemma decode_3366cc: "hexToRgb ''#3366cc'' = (Fin 51, Fin 102, Fin 204)"
  by code_simp


lemma solid_palette:
  assumes "0 < n" and "1 \<le> k"
  shows "extractDominantPalette [Pixels (concat (replicate n [51, 102, 204, 255]))] k
           = Inr [''#3868c8'']"
proof -
  let ?dat = "concat (replicate n [51, 102, 204, 255]) :: 8 word list"
  let ?files = "[Pixels ?dat]"
  let ?h = "pixelLoop ?dat 0 []"
  have h: "fileLoop ?files [] = Inr ?h" by simp
  have keys: "set (sampledKeys ?files) = {876}"
    using solid_keptKeys [OF refl assms(1)] by simp
  note hf = histogram_facts [OF h]
  have "map fst (sortEntries ?h) = [876]"
  proof (rule single_key)
    show "distinct (map fst (sortEntries ?h))"
      using hf(1) by (simp add: sortEntries_facts)
    show "fst ` set (sortEntries ?h) = {876}"
      using hf(2) keys by (simp add: sortEntries_facts)
  qed
  moreover have "take (nat k) [876 :: nat] = [876]"
    using assms(2) by (cases "nat k") simp_all
  ultimately show ?thesis
    using palette_is_take [OF h, of k] assms(2) by (simp add: hexOfKey_876)
qed

lemma onePixel_palette: "extractDominantPalette onePixel 5 = Inr [''#3868c8'']"
  using solid_palette [of 1 5] by (simp add: onePixel_def)

text \<open>
  Claim C6. A buffer of \<open>n > 0\<close> pixels, all of colour \<^verbatim>\<open>#3366cc\<close> (51, 102, 204) with
  alpha 255, gives for every count \<open>k \<ge> 1\<close> the palette with the one entry
  \<^verbatim>\<open>#3868c8\<close>. That entry decodes to (56, 104, 200): each channel is within 8 of the
  channel of \<^verbatim>\<open>#3366cc\<close>.
\<close>

theorem C6_solid_colour:
  assumes "0 < n" and "1 \<le> k"
  shows "extractDominantPalette [Pixels (concat (replicate n [51, 102, 204, 255]))] k
           = Inr [''#3868c8'']
     \<and> hexToRgb ''#3366cc'' = (Fin 51, Fin 102, Fin 204)
     \<and> hexToRgb ''#3868c8'' = (Fin 56, Fin 104, Fin 200)
     \<and> \<bar>56 - 51 :: rat\<bar> \<le> 8 \<and> \<bar>104 - 102 :: rat\<bar> \<le> 8 \<and> \<bar>200 - 204 :: rat\<bar> \<le> 8"
  using solid_palette [OF assms] decode_3366cc decode_3868c8 by simp

theorem C6_solid_colour_witness:
  "(0::nat) < 1 \<and> (1::int) \<le> 5
   \<and> extractDominantPalette [Pixels [51, 102, 204, 255]] 5 = Inr [''#3868c8'']
   \<and> hexToRgb ''#3868c8'' = (Fin 56, Fin 104, Fin 200)"
proof -
  have a: "(0::nat) < 1" and b: "(1::int) \<le> 5" by simp_all
  from C6_solid_colour [OF a b] show ?thesis by simp
qed

section \<open>Properties of the mood heuristic\<close>




section \<open>Properties of prompt fusion\<close>

lemma lit_tenth_below: "js_lt (clamp (lit (1 / 10)) (Fin 0) (Fin 1)) (lit (15 / 100))"
  by code_simp

text \<open>
  Claim C7. Whenever the intensity, clamped into \<open>[0, 1]\<close>, is below \<open>0.15\<close>, the prompt
  fusion (\<open>performReasoning\<close>, and \<open>fusePrompt\<close> which forwards to it) returns the user
  prompt unchanged, whatever the prompt and the style are. In particular
  \<open>fusePrompt p style 0.1 = p\<close>.
\<close>

theorem C7_fusion_identity:
  "(js_lt (clamp intensity (Fin 0) (Fin 1)) (lit (15 / 100)) \<longrightarrow>
      performReasoning userPrompt styleData intensity = userPrompt
      \<and> fusePrompt userPrompt styleData intensity = userPrompt)
   \<and> fusePrompt userPrompt styleData (lit (1 / 10)) = userPrompt"
  using lit_tenth_below
  by (simp add: fusePrompt_def performReasoning_def Let_def)

theorem C7_fusion_identity_witness:
  "js_lt (clamp (lit (1 / 10)) (Fin 0) (Fin 1)) (lit (15 / 100))
   \<and> performReasoning ''draw a cat'' None (lit (1 / 10)) = ''draw a cat''
   \<and> fusePrompt ''draw a cat'' None (lit (1 / 10)) = ''draw a cat''"
  using C7_fusion_identity [of "lit (1 / 10)" "''draw a cat''" None] lit_tenth_below
  by blast

lemma trim_id:
  assumes "s \<noteq> []" "\<not> isWhiteSpace (hd s)" "\<not> isWhiteSpace (last s)"
  shows "trim s = s"
proof -
  have a: "dropWhile isWhiteSpace s = s"
    using assms by (cases s) simp_all
  have b: "dropWhile isWhiteSpace (rev s) = rev s"
    using assms by (cases "rev s") (simp_all add: last_rev [symmetric] hd_rev)
  show ?thesis by (simp add: trim_def a b)
qed

lemma join_last:
  "xs \<noteq> [] \<Longrightarrow> last xs \<noteq> [] \<Longrightarrow> join sep xs \<noteq> [] \<and> last (join sep xs) = last (last xs)"
  by (induction sep xs rule: join.induct) auto

lemma hintParts_filter:
  "filter (\<lambda>s. s \<noteq> [])
     [if t \<noteq> [] then ''Technique: '' @ t @ ''.'' else '''',
      if length m \<noteq> 0 then ''Mood: '' @ join '', '' m @ ''.'' else '''',
      if length p \<noteq> 0 then ''Palette: '' @ join '', '' (take 5 p) @ ''.'' else '''']
   = (if t = [] then [] else [''Technique: '' @ t @ ''.''])
     @ (if m = [] then [] else [''Mood: '' @ join '', '' m @ ''.''])
     @ (if p = [] then [] else [''Palette: '' @ join '', '' (take 5 p) @ ''.''])"
  by simp

lemma performReasoning_above:
  assumes "\<not> js_lt (clamp i (Fin 0) (Fin 1)) (lit (15 / 100))"
  shows "performReasoning p s i = trim (p @ [newline, newline] @ guidanceLine (clamp i (Fin 0) (Fin 1)) s)"
  using assms
  unfolding performReasoning_def guidanceLine_def hintClause_def hintParts_def strengthLabel_def
    styleTechnique_def styleMoods_def stylePalette_def Let_def
  by (simp only: hintParts_filter if_False)

lemma hintParts_last:
  "hintParts s \<noteq> [] \<Longrightarrow> last (hintParts s) \<noteq> [] \<and> last (last (hintParts s)) = CHR ''.''"
  by (auto simp: hintParts_def split: if_splits)

lemma hintClause_last:
  assumes "hintClause s \<noteq> []"
  shows "last (hintClause s) = CHR ''.''"
proof -
  have ne: "hintParts s \<noteq> []"
    using assms by (auto simp: hintClause_def)
  from hintParts_last [OF ne] join_last [of "hintParts s" "'' ''"] ne
  show ?thesis by (simp add: hintClause_def)
qed

lemma dot_not_white: "\<not> isWhiteSpace (CHR ''.'')"
  by (simp add: isWhiteSpace_def)


lemma dropWhile_keeps_last:
  "s \<noteq> [] \<Longrightarrow> \<not> P (last s) \<Longrightarrow> dropWhile P s \<noteq> [] \<and> last (dropWhile P s) = last s"
  by (induction s) (auto split: if_splits)

lemma trim_front_only:
  assumes "s \<noteq> []" "\<not> isWhiteSpace (last s)"
  shows "trim s = dropWhile isWhiteSpace s"
proof -
  let ?d = "dropWhile isWhiteSpace s"
  have d: "?d \<noteq> []" "last ?d = last s"
    using dropWhile_keeps_last [of s isWhiteSpace] assms by simp_all
  have "dropWhile isWhiteSpace (rev ?d) = rev ?d"
    using d assms(2) by (cases "rev ?d") (simp_all add: last_rev [symmetric] hd_rev)
  then show ?thesis by (simp add: trim_def)
qed

lemma newline_white: "isWhiteSpace newline"
  by (simp add: newline_def isWhiteSpace_def)

lemma guidanceLine_head:
  "guidanceLine si s \<noteq> [] \<and> \<not> isWhiteSpace (hd (guidanceLine si s))"
  by (simp add: guidanceLine_def isWhiteSpace_def)

text \<open>
  Claim C8, amended. For an intensity whose clamp is at least \<open>0.15\<close> the result is the
  white-space-trimmed text of: the user prompt, an empty line, and the line
  \<open>Style guidance (<strength>, <round (clamped intensity * 100)>%): <hint clause>\<close>, with
  the strength label and the hint clause as the specification describes them. When the
  hint clause is not empty, trimming removes white space at the front only. Then, for a
  prompt that is not empty and does not begin with white space, the result is the user
  prompt, the empty line and that line, exactly; for a prompt that is empty or all white
  space, the result is that line alone.
\<close>

theorem C8_guidance_line:
  "js_ge (clamp i (Fin 0) (Fin 1)) (lit (15 / 100)) \<Longrightarrow>
     performReasoning p s i
       = trim (p @ [newline, newline] @ guidanceLine (clamp i (Fin 0) (Fin 1)) s)
     \<and> (hintClause s \<noteq> [] \<longrightarrow>
          performReasoning p s i
            = dropWhile isWhiteSpace (p @ [newline, newline] @ guidanceLine (clamp i (Fin 0) (Fin 1)) s))
     \<and> (p \<noteq> [] \<and> \<not> isWhiteSpace (hd p) \<and> hintClause s \<noteq> [] \<longrightarrow>
          performReasoning p s i
            = p @ [newline, newline] @ guidanceLine (clamp i (Fin 0) (Fin 1)) s)
     \<and> (list_all isWhiteSpace p \<and> hintClause s \<noteq> [] \<longrightarrow>
          performReasoning p s i = guidanceLine (clamp i (Fin 0) (Fin 1)) s)"
proof -
  let ?si = "clamp i (Fin 0) (Fin 1)"
  let ?g = "guidanceLine ?si s"
  let ?t = "p @ [newline, newline] @ ?g"
  assume "js_ge ?si (lit (15 / 100))"
  then have nlt: "\<not> js_lt ?si (lit (15 / 100))"
    by (simp add: js_ge_def)
  have eq: "performReasoning p s i = trim ?t"
    by (rule performReasoning_above [OF nlt])
  have front: "trim ?t = dropWhile isWhiteSpace ?t" if h: "hintClause s \<noteq> []"
  proof (rule trim_front_only)
    show "?t \<noteq> []" by simp
    have "last ?t = last (hintClause s)"
      using h by (simp add: guidanceLine_def)
    then show "\<not> isWhiteSpace (last ?t)"
      using hintClause_last [OF h] dot_not_white by simp
  qed
  have exact: "dropWhile isWhiteSpace ?t = ?t" if p: "p \<noteq> []" "\<not> isWhiteSpace (hd p)"
    using p by (cases p) simp_all
  have alone: "dropWhile isWhiteSpace ?t = ?g" if w: "list_all isWhiteSpace p"
  proof -
    have "dropWhile isWhiteSpace ?t = dropWhile isWhiteSpace ([newline, newline] @ ?g)"
      using w by (simp add: dropWhile_append2 list_all_iff)
    also have "\<dots> = dropWhile isWhiteSpace ?g"
      by (simp add: newline_white)
    also have "\<dots> = ?g"
      using guidanceLine_head [of ?si s] by (cases ?g) simp_all
    finally show ?thesis .
  qed
  show ?thesis
    using eq front exact alone by simp
qed

theorem C8_guidance_line_witness:
  "js_ge (clamp (lit (9 / 10)) (Fin 0) (Fin 1)) (lit (15 / 100))
   \<and> performReasoning ''draw a cat'' inkWash (lit (9 / 10))
       = ''draw a cat'' @ [newline, newline]
         @ ''Style guidance (strict, 90%): Technique: ink wash. Mood: calm. Palette: #111111.''
   \<and> performReasoning [] inkWash (lit (9 / 10))
       = ''Style guidance (strict, 90%): Technique: ink wash. Mood: calm. Palette: #111111.''"
proof -
  have h: "js_ge (clamp (lit (9 / 10)) (Fin 0) (Fin 1)) (lit (15 / 100))"
    by code_simp
  have g: "guidanceLine (clamp (lit (9 / 10)) (Fin 0) (Fin 1)) inkWash
            = ''Style guidance (strict, 90%): Technique: ink wash. Mood: calm. Palette: #111111.''"
    by code_simp
  have ne: "hintClause inkWash \<noteq> []"
    by code_simp
  have w: "''draw a cat'' \<noteq> [] \<and> \<not> isWhiteSpace (hd ''draw a cat'')"
    by code_simp
  have v: "list_all isWhiteSpace []"
    by simp
  have a: "performReasoning ''draw a cat'' inkWash (lit (9 / 10))
          = ''draw a cat'' @ [newline, newline]
            @ guidanceLine (clamp (lit (9 / 10)) (Fin 0) (Fin 1)) inkWash"
    using C8_guidance_line [OF h, of "''draw a cat''" inkWash] ne w by blast
  have b: "performReasoning [] inkWash (lit (9 / 10))
          = guidanceLine (clamp (lit (9 / 10)) (Fin 0) (Fin 1)) inkWash"
    using C8_guidance_line [OF h, of "[]" inkWash] ne v by blast
  show ?thesis
    using h a b by (simp only: g simp_thms)
qed

text \<open>
  Claim C8 as it was stated fails: the whole text is trimmed, so a prompt that begins with
  a space does not come back in front of the guidance line.
\<close>

theorem C8_leading_space_counterexample:
  "js_ge (clamp (Fin 1) (Fin 0) (Fin 1)) (lit (15 / 100))
   \<and> performReasoning '' a cat'' inkWash (Fin 1)
       = ''a cat'' @ [newline, newline]
         @ ''Style guidance (strict, 100%): Technique: ink wash. Mood: calm. Palette: #111111.''
   \<and> \<not> startsWith (performReasoning '' a cat'' inkWash (Fin 1)) '' a cat''"
  by code_simp

section \<open>Properties of the forwarding proxy\<close>















section \<open>Properties of the orchestrator\<close>

lemma onePixel_moods:
  "inferMoodKeywords [''#3868c8''] = [''balanced'', ''vibrant'', ''stylized'']"
  by code_simp

lemma vlmFields_empty: "vlmFields (JObject []) = emptyVlm"
  by (simp add: vlmFields_def emptyVlm_def)

lemma analyze_returns:
  "extractDominantPalette files 5 = Inr p \<Longrightarrow> \<exists>r. analyzeStyle files cs vs es d = Inr r"
  by (simp add: analyzeStyle_def Let_def)

lemma analyze_collage_fails:
  "analyzeStyle files (Inl e) vs es d
     = analyzeStyle files (Inr c) (\<lambda>u. Inr (JObject [])) (\<lambda>b. Inr None) d"
  by (simp add: analyzeStyle_def Let_def extractStyleWithVlm_def vlmFields_empty
      split: sum.splits)

lemma analyze_vlm_fails:
  "vs (dataUrl c) = Inl e \<Longrightarrow>
     analyzeStyle files (Inr c) vs es d = analyzeStyle files (Inr c) (\<lambda>u. Inr (JObject [])) es d"
  by (simp add: analyzeStyle_def Let_def extractStyleWithVlm_def vlmFields_empty
      split: sum.splits)

lemma analyze_embed_fails:
  "es (blob c) = Inl e \<Longrightarrow>
     analyzeStyle files (Inr c) vs es d = analyzeStyle files (Inr c) vs (\<lambda>b. Inr None) d"
  by (simp add: analyzeStyle_def Let_def split: sum.splits)

lemma analyze_all_fallbacks:
  "extractDominantPalette files 5 = Inr p \<Longrightarrow>
     analyzeStyle files (Inr c) (\<lambda>u. Inr (JObject [])) es d =
       Inr \<lparr> sa_artisticStyle = ''Custom'',
             sa_visualTechnique = ''Reference-guided'',
             sa_colorPalette = p,
             sa_moodKeywords = inferMoodKeywords p,
             sa_suggestedName = ''Custom Style '' @ d,
             sa_embedding = (case es (blob c) of Inl e \<Rightarrow> None | Inr v \<Rightarrow> v),
             sa_reasoning =
               Some ''Extracted a dominant palette and inferred basic mood from reference images.'' \<rparr>"
  by (simp add: analyzeStyle_def Let_def extractStyleWithVlm_def vlmFields_empty emptyVlm_def
      nonEmptyOr_def orDefault_def)


lemma not_hex [simp]:
  "\<not> isHexDigit CHR ''x''" "\<not> isHexDigit CHR ''X''" "\<not> isHexDigit CHR ''#''"
  by (simp_all add: isHexDigit_def hexDigitValue_def)

lemma strip_plain:
  assumes "length h = 6" "list_all isHexDigit h"
  shows "stripHash h = h" "strip0x h = h" "strip0x (CHR ''#'' # h) = CHR ''#'' # h"
proof -
  obtain a b r where h: "h = a # b # r"
    using assms(1) by (cases h; cases "tl h") auto
  have ab: "isHexDigit a" "isHexDigit b"
    using assms(2) by (simp_all add: h)
  then have "a \<noteq> CHR ''#''" "b \<noteq> CHR ''x''" "b \<noteq> CHR ''X''"
    using not_hex by auto
  then show "stripHash h = h" "strip0x h = h" "strip0x (CHR ''#'' # h) = CHR ''#'' # h"
    by (simp_all add: h)
qed

lemma strip_cases:
  "\<exists>pre. pre \<in> set [[], ''0x'', ''0X'', ''#'', ''0x#'', ''0X#''] \<and> t = pre @ stripHash (strip0x t)"
proof (cases "strip0x t = t")
  case True
  then show ?thesis
    by (cases t) auto
next
  case False
  then obtain x r where t: "t = CHR ''0'' # x # r" "x = CHR ''x'' \<or> x = CHR ''X''" "strip0x t = r"
    by (cases t rule: strip0x.cases) (auto split: if_splits)
  then show ?thesis
    by (cases r) auto
qed

lemma normalizeHex_iff:
  "(normalizeHex (JString s) = Some v) =
     (\<exists>pre h. trim s = pre @ h \<and> pre \<in> set [[], ''0x'', ''0X'', ''#'', ''0x#'', ''0X#'']
        \<and> length h = 6 \<and> list_all isHexDigit h \<and> v = CHR ''#'' # map toLowerChar h)"
proof
  assume a: "normalizeHex (JString s) = Some v"
  let ?h = "stripHash (strip0x (trim s))"
  from a have h: "length ?h = 6" "list_all isHexDigit ?h" "v = CHR ''#'' # map toLowerChar ?h"
    by (auto simp: Let_def split: if_splits)
  from strip_cases [of "trim s"] obtain pre where
    "pre \<in> set [[], ''0x'', ''0X'', ''#'', ''0x#'', ''0X#'']" "trim s = pre @ ?h"
    by blast
  with h show "\<exists>pre h. trim s = pre @ h \<and> pre \<in> set [[], ''0x'', ''0X'', ''#'', ''0x#'', ''0X#'']
        \<and> length h = 6 \<and> list_all isHexDigit h \<and> v = CHR ''#'' # map toLowerChar h"
    by blast
next
  assume "\<exists>pre h. trim s = pre @ h \<and> pre \<in> set [[], ''0x'', ''0X'', ''#'', ''0x#'', ''0X#'']
        \<and> length h = 6 \<and> list_all isHexDigit h \<and> v = CHR ''#'' # map toLowerChar h"
  then obtain pre h where ph: "trim s = pre @ h" "pre \<in> set [[], ''0x'', ''0X'', ''#'', ''0x#'', ''0X#'']"
      "length h = 6" "list_all isHexDigit h" "v = CHR ''#'' # map toLowerChar h"
    by blast
  have "stripHash (strip0x (pre @ h)) = h"
    using ph(2) strip_plain [OF ph(3,4)] by auto
  then show "normalizeHex (JString s) = Some v"
    using ph by (simp add: Let_def)
qed

lemma nonEmptyOr_palette:
  "nonEmptyOr (paletteField (getField j ''colorPalette'')) d
     = (if externalPalette j = [] then d else externalPalette j)"
proof (cases "getField j ''colorPalette''")
  case None
  then show ?thesis by (simp add: externalPalette_def nonEmptyOr_def)
next
  case (Some x)
  then show ?thesis by (cases x) (simp_all add: externalPalette_def nonEmptyOr_def)
qed

lemma stringField_case: "(\<lambda>x. stringField (Some x)) = (\<lambda>x. case x of JString s \<Rightarrow> Some s | _ \<Rightarrow> None)"
proof
  fix x show "stringField (Some x) = (case x of JString s \<Rightarrow> Some s | _ \<Rightarrow> None)"
    by (cases x) simp_all
qed

lemma min_length_six: "(min (length ys) 6 = 0) = (ys = [])"
  by (cases ys) simp_all

lemma nonEmptyOr_moods:
  "nonEmptyOr (moodsField (getField j ''moodKeywords'')) d
     = (if externalMoods j = [] then d else externalMoods j)"
proof (cases "getField j ''moodKeywords''")
  case None
  then show ?thesis by (simp add: externalMoods_def nonEmptyOr_def)
next
  case (Some x)
  then show ?thesis
    by (cases x) (simp_all add: externalMoods_def nonEmptyOr_def stringField_case min_length_six)
qed

lemma orDefault_string:
  "orDefault (stringField (getField j k)) d
     = (if externalString j k = [] then d else externalString j k)"
proof (cases "getField j k")
  case None
  then show ?thesis by (simp add: externalString_def orDefault_def)
next
  case (Some x)
  then show ?thesis by (cases x) (simp_all add: externalString_def orDefault_def)
qed

lemma analyze_merge:
  assumes "extractDominantPalette files 5 = Inr p0" and "vs (dataUrl c) = Inr j"
  shows "analyzeStyle files (Inr c) vs es d =
     Inr \<lparr> sa_artisticStyle =
             (if externalString j ''artisticStyle'' = [] then ''Custom''
              else externalString j ''artisticStyle''),
           sa_visualTechnique =
             (if externalString j ''visualTechnique'' = [] then ''Reference-guided''
              else externalString j ''visualTechnique''),
           sa_colorPalette = (if externalPalette j = [] then p0 else externalPalette j),
           sa_moodKeywords =
             (if externalMoods j = [] then inferMoodKeywords p0 else externalMoods j),
           sa_suggestedName =
             (if externalString j ''suggestedName'' = [] then ''Custom Style '' @ d
              else externalString j ''suggestedName''),
           sa_embedding = (case es (blob c) of Inl e \<Rightarrow> None | Inr v \<Rightarrow> v),
           sa_reasoning = Some
             (if externalString j ''reasoning'' = []
              then ''Extracted a dominant palette and inferred basic mood from reference images.''
              else externalString j ''reasoning'') \<rparr>"
  unfolding analyzeStyle_def Let_def extractStyleWithVlm_def
  by (simp only: assms sum.case option.case vlmFields_def VlmPartial.simps
      nonEmptyOr_palette nonEmptyOr_moods orDefault_string)


lemma analyze_no_collage:
  "extractDominantPalette files 5 = Inr p \<Longrightarrow>
     analyzeStyle files (Inl e) vs es d =
       Inr \<lparr> sa_artisticStyle = ''Custom'',
             sa_visualTechnique = ''Reference-guided'',
             sa_colorPalette = p,
             sa_moodKeywords = inferMoodKeywords p,
             sa_suggestedName = ''Custom Style '' @ d,
             sa_embedding = None,
             sa_reasoning =
               Some ''Extracted a dominant palette and inferred basic mood from reference images.'' \<rparr>"
  by (simp add: analyzeStyle_def Let_def emptyVlm_def nonEmptyOr_def orDefault_def)

lemma fiveColours_external:
  "externalPalette fiveColours = [''#112233'', ''#445566'', ''#778899'', ''#aabbcc'']"
  "externalMoods fiveColours = []"
  "externalString fiveColours ''artisticStyle'' = []"
  "externalString fiveColours ''visualTechnique'' = []"
  "externalString fiveColours ''suggestedName'' = []"
  "externalString fiveColours ''reasoning'' = []"
  by code_simp+

text \<open>
  Claim C2, amended. Whatever the collage stage, the VLM stage and the embedding stage do,
  throw or return, \<open>analyzeStyle\<close> returns a result whenever the palette extraction did
  (the only stage outside a \<open>try\<close>). A VLM stage that throws gives the same result as a
  VLM answer with no fields, the embedding stage being left as it is; an embedding stage
  that throws gives the same result as one that returns no embedding, the merged VLM
  fields being left as they are. A collage stage that throws does not leave the other two
  stages as they are: neither is run, and the result is that of a VLM answer with no
  fields together with no embedding, whatever the two stages would have returned. With an
  empty VLM answer every field is its fallback.
\<close>

theorem C2_fault_isolation:
  "(extractDominantPalette files 5 = Inr p \<longrightarrow> (\<exists>r. analyzeStyle files cs vs es d = Inr r))
   \<and> analyzeStyle files (Inl e) vs es d
       = analyzeStyle files (Inr c) (\<lambda>u. Inr (JObject [])) (\<lambda>b. Inr None) d
   \<and> (vs (dataUrl c) = Inl e \<longrightarrow>
        analyzeStyle files (Inr c) vs es d
          = analyzeStyle files (Inr c) (\<lambda>u. Inr (JObject [])) es d)
   \<and> (es (blob c) = Inl e \<longrightarrow>
        analyzeStyle files (Inr c) vs es d = analyzeStyle files (Inr c) vs (\<lambda>b. Inr None) d)
   \<and> (extractDominantPalette files 5 = Inr p \<longrightarrow>
        analyzeStyle files (Inr c) (\<lambda>u. Inr (JObject [])) es d =
          Inr \<lparr> sa_artisticStyle = ''Custom'',
                sa_visualTechnique = ''Reference-guided'',
                sa_colorPalette = p,
                sa_moodKeywords = inferMoodKeywords p,
                sa_suggestedName = ''Custom Style '' @ d,
                sa_embedding = (case es (blob c) of Inl e \<Rightarrow> None | Inr v \<Rightarrow> v),
                sa_reasoning =
                  Some ''Extracted a dominant palette and inferred basic mood from reference images.'' \<rparr>)
   \<and> (extractDominantPalette files 5 = Inr p \<longrightarrow>
        analyzeStyle files (Inl e) vs es d =
          Inr \<lparr> sa_artisticStyle = ''Custom'',
                sa_visualTechnique = ''Reference-guided'',
                sa_colorPalette = p,
                sa_moodKeywords = inferMoodKeywords p,
                sa_suggestedName = ''Custom Style '' @ d,
                sa_embedding = None,
                sa_reasoning =
                  Some ''Extracted a dominant palette and inferred basic mood from reference images.'' \<rparr>)"
  using analyze_returns [of files p cs vs es d] analyze_collage_fails [of files e vs es d c]
    analyze_vlm_fails [of vs c e files es d] analyze_embed_fails [of es c e files vs d]
    analyze_all_fallbacks [of files p c es d] analyze_no_collage [of files p e vs es d]
  by blast

theorem C2_fault_isolation_witness:
  "extractDominantPalette onePixel 5 = Inr [''#3868c8'']
   \<and> analyzeStyle onePixel (Inr someCollage) (\<lambda>u. Inl (Error ''HF VLM returned no content''))
        (\<lambda>b. Inl (Error ''HF embed error (503): '')) ''1/2/2026'' =
       Inr \<lparr> sa_artisticStyle = ''Custom'',
             sa_visualTechnique = ''Reference-guided'',
             sa_colorPalette = [''#3868c8''],
             sa_moodKeywords = [''balanced'', ''vibrant'', ''stylized''],
             sa_suggestedName = ''Custom Style 1/2/2026'',
             sa_embedding = None,
             sa_reasoning =
               Some ''Extracted a dominant palette and inferred basic mood from reference images.'' \<rparr>
   \<and> analyzeStyle onePixel (Inl (Error ''Failed to create collage blob''))
        (\<lambda>u. Inr fiveColours) (\<lambda>b. Inr (Some [1, 2])) ''1/2/2026'' =
       Inr \<lparr> sa_artisticStyle = ''Custom'',
             sa_visualTechnique = ''Reference-guided'',
             sa_colorPalette = [''#3868c8''],
             sa_moodKeywords = [''balanced'', ''vibrant'', ''stylized''],
             sa_suggestedName = ''Custom Style 1/2/2026'',
             sa_embedding = None,
             sa_reasoning =
               Some ''Extracted a dominant palette and inferred basic mood from reference images.'' \<rparr>"
proof -
  let ?vs = "\<lambda>u :: string. Inl (Error ''HF VLM returned no content'') :: error + json"
  let ?es = "\<lambda>b :: 8 word list. Inl (Error ''HF embed error (503): '') :: error + rat list option"
  let ?e1 = "Error ''HF VLM returned no content''"
  let ?ws = "\<lambda>u :: string. Inr fiveColours :: error + json"
  let ?fs = "\<lambda>b :: 8 word list. Inr (Some [1, 2]) :: error + rat list option"
  note T = C2_fault_isolation [of onePixel "[''#3868c8'']" "Inr someCollage" ?vs ?es "''1/2/2026''"
      ?e1 someCollage]
  note U = C2_fault_isolation [of onePixel "[''#3868c8'']" "Inr someCollage" ?ws ?fs "''1/2/2026''"
      "Error ''Failed to create collage blob''" someCollage]
  have p: "extractDominantPalette onePixel 5 = Inr [''#3868c8'']"
    by (rule onePixel_palette)
  note m = onePixel_moods
  have "analyzeStyle onePixel (Inr someCollage) ?vs ?es ''1/2/2026''
          = analyzeStyle onePixel (Inr someCollage) (\<lambda>u. Inr (JObject [])) ?es ''1/2/2026''"
    using T [THEN conjunct2, THEN conjunct2, THEN conjunct1] by simp
  also have "\<dots> = Inr \<lparr> sa_artisticStyle = ''Custom'',
             sa_visualTechnique = ''Reference-guided'',
             sa_colorPalette = [''#3868c8''],
             sa_moodKeywords = inferMoodKeywords [''#3868c8''],
             sa_suggestedName = ''Custom Style '' @ ''1/2/2026'',
             sa_embedding = (case ?es (blob someCollage) of Inl e \<Rightarrow> None | Inr v \<Rightarrow> v),
             sa_reasoning =
               Some ''Extracted a dominant palette and inferred basic mood from reference images.'' \<rparr>"
    using T [THEN conjunct2, THEN conjunct2, THEN conjunct2, THEN conjunct2, THEN conjunct1] p
    by blast
  finally have a: "analyzeStyle onePixel (Inr someCollage) ?vs ?es ''1/2/2026'' =
       Inr \<lparr> sa_artisticStyle = ''Custom'',
             sa_visualTechnique = ''Reference-guided'',
             sa_colorPalette = [''#3868c8''],
             sa_moodKeywords = [''balanced'', ''vibrant'', ''stylized''],
             sa_suggestedName = ''Custom Style 1/2/2026'',
             sa_embedding = None,
             sa_reasoning =
               Some ''Extracted a dominant palette and inferred basic mood from reference images.'' \<rparr>"
    by (simp add: m)
  have "analyzeStyle onePixel (Inl (Error ''Failed to create collage blob'')) ?ws ?fs ''1/2/2026'' =
       Inr \<lparr> sa_artisticStyle = ''Custom'',
             sa_visualTechnique = ''Reference-guided'',
             sa_colorPalette = [''#3868c8''],
             sa_moodKeywords = inferMoodKeywords [''#3868c8''],
             sa_suggestedName = ''Custom Style '' @ ''1/2/2026'',
             sa_embedding = None,
             sa_reasoning =
               Some ''Extracted a dominant palette and inferred basic mood from reference images.'' \<rparr>"
    using U [THEN conjunct2, THEN conjunct2, THEN conjunct2, THEN conjunct2, THEN conjunct2] p
    by blast
  then have b: "analyzeStyle onePixel (Inl (Error ''Failed to create collage blob'')) ?ws ?fs ''1/2/2026'' =
       Inr \<lparr> sa_artisticStyle = ''Custom'',
             sa_visualTechnique = ''Reference-guided'',
             sa_colorPalette = [''#3868c8''],
             sa_moodKeywords = [''balanced'', ''vibrant'', ''stylized''],
             sa_suggestedName = ''Custom Style 1/2/2026'',
             sa_embedding = None,
             sa_reasoning =
               Some ''Extracted a dominant palette and inferred basic mood from reference images.'' \<rparr>"
    by (simp add: m)
  show ?thesis
    by (intro conjI p a b)
qed

text \<open>
  Claim C2 as it was stated fails for the collage stage: its failure does not leave the
  results of the other two stages unaffected. With a VLM stage that returns a palette and
  an embedding stage that returns a vector, the run with a collage uses both; the run
  whose collage stage throws has the fallback palette and no embedding.
\<close>

theorem C2_collage_failure_counterexample:
  "analyzeStyle onePixel (Inr someCollage) (\<lambda>u. Inr fiveColours) (\<lambda>b. Inr (Some [1, 2]))
        ''1/2/2026'' =
       Inr \<lparr> sa_artisticStyle = ''Custom'',
             sa_visualTechnique = ''Reference-guided'',
             sa_colorPalette = [''#112233'', ''#445566'', ''#778899'', ''#aabbcc''],
             sa_moodKeywords = [''balanced'', ''vibrant'', ''stylized''],
             sa_suggestedName = ''Custom Style 1/2/2026'',
             sa_embedding = Some [1, 2],
             sa_reasoning =
               Some ''Extracted a dominant palette and inferred basic mood from reference images.'' \<rparr>
   \<and> analyzeStyle onePixel (Inl (Error ''Failed to create collage blob''))
        (\<lambda>u. Inr fiveColours) (\<lambda>b. Inr (Some [1, 2])) ''1/2/2026'' =
       Inr \<lparr> sa_artisticStyle = ''Custom'',
             sa_visualTechnique = ''Reference-guided'',
             sa_colorPalette = [''#3868c8''],
             sa_moodKeywords = [''balanced'', ''vibrant'', ''stylized''],
             sa_suggestedName = ''Custom Style 1/2/2026'',
             sa_embedding = None,
             sa_reasoning =
               Some ''Extracted a dominant palette and inferred basic mood from reference images.'' \<rparr>"
proof -
  let ?ws = "\<lambda>u :: string. Inr fiveColours :: error + json"
  let ?fs = "\<lambda>b :: 8 word list. Inr (Some [1, 2]) :: error + rat list option"
  have a: "analyzeStyle onePixel (Inr someCollage) ?ws ?fs ''1/2/2026'' =
       Inr \<lparr> sa_artisticStyle = ''Custom'',
             sa_visualTechnique = ''Reference-guided'',
             sa_colorPalette = [''#112233'', ''#445566'', ''#778899'', ''#aabbcc''],
             sa_moodKeywords = [''balanced'', ''vibrant'', ''stylized''],
             sa_suggestedName = ''Custom Style 1/2/2026'',
             sa_embedding = Some [1, 2],
             sa_reasoning =
               Some ''Extracted a dominant palette and inferred basic mood from reference images.'' \<rparr>"
    using analyze_merge [OF onePixel_palette, of ?ws someCollage fiveColours ?fs "''1/2/2026''"]
    by (simp add: fiveColours_external onePixel_moods)
  have b: "analyzeStyle onePixel (Inl (Error ''Failed to create collage blob'')) ?ws ?fs ''1/2/2026'' =
       Inr \<lparr> sa_artisticStyle = ''Custom'',
             sa_visualTechnique = ''Reference-guided'',
             sa_colorPalette = [''#3868c8''],
             sa_moodKeywords = [''balanced'', ''vibrant'', ''stylized''],
             sa_suggestedName = ''Custom Style 1/2/2026'',
             sa_embedding = None,
             sa_reasoning =
               Some ''Extracted a dominant palette and inferred basic mood from reference images.'' \<rparr>"
    using analyze_no_collage [OF onePixel_palette, of "Error ''Failed to create collage blob''" ?ws ?fs
        "''1/2/2026''"]
    by (simp add: onePixel_moods)
  show ?thesis
    by (intro conjI a b)
qed

text \<open>
  Claim C1, amended. With the fallback palette \<open>p0\<close> computed and a VLM answer \<open>j\<close>,
  every field of the merged analysis is the external value when that is present and not
  empty, and otherwise the fallback: \<open>p0\<close> for the palette, the mood heuristic on
  \<open>p0\<close> for the mood keywords, and the literals \<open>Custom\<close>, \<open>Reference-guided\<close>,
  \<open>Custom Style <date>\<close> and the explanatory sentence for the four scalar fields. When
  the VLM stage throws, every field is its fallback. The external palette keeps the entries
  that \<open>normalizeHex\<close> accepts: strings that, after trimming white space and removing
  an optional \<open>0x\<close> or \<open>0X\<close> and then an optional \<open>#\<close>, are exactly six hexadecimal
  digits; each is kept as \<open>#\<close> and the six digits in lower case.
\<close>

theorem C1_merge_precedence:
  "(extractDominantPalette files 5 = Inr p0 \<and> vs (dataUrl c) = Inr j \<longrightarrow>
      analyzeStyle files (Inr c) vs es d =
        Inr \<lparr> sa_artisticStyle =
                (if externalString j ''artisticStyle'' = [] then ''Custom''
                 else externalString j ''artisticStyle''),
              sa_visualTechnique =
                (if externalString j ''visualTechnique'' = [] then ''Reference-guided''
                 else externalString j ''visualTechnique''),
              sa_colorPalette = (if externalPalette j = [] then p0 else externalPalette j),
              sa_moodKeywords =
                (if externalMoods j = [] then inferMoodKeywords p0 else externalMoods j),
              sa_suggestedName =
                (if externalString j ''suggestedName'' = [] then ''Custom Style '' @ d
                 else externalString j ''suggestedName''),
              sa_embedding = (case es (blob c) of Inl e \<Rightarrow> None | Inr v \<Rightarrow> v),
              sa_reasoning = Some
                (if externalString j ''reasoning'' = []
                 then ''Extracted a dominant palette and inferred basic mood from reference images.''
                 else externalString j ''reasoning'') \<rparr>)
   \<and> (extractDominantPalette files 5 = Inr p0 \<and> vs (dataUrl c) = Inl e \<longrightarrow>
      analyzeStyle files (Inr c) vs es d =
        Inr \<lparr> sa_artisticStyle = ''Custom'',
              sa_visualTechnique = ''Reference-guided'',
              sa_colorPalette = p0,
              sa_moodKeywords = inferMoodKeywords p0,
              sa_suggestedName = ''Custom Style '' @ d,
              sa_embedding = (case es (blob c) of Inl e \<Rightarrow> None | Inr v \<Rightarrow> v),
              sa_reasoning =
                Some ''Extracted a dominant palette and inferred basic mood from reference images.'' \<rparr>)
   \<and> (normalizeHex (JString s) = Some v) =
       (\<exists>pre h. trim s = pre @ h \<and> pre \<in> set [[], ''0x'', ''0X'', ''#'', ''0x#'', ''0X#'']
          \<and> length h = 6 \<and> list_all isHexDigit h \<and> v = CHR ''#'' # map toLowerChar h)"
proof (intro conjI impI)
  assume "extractDominantPalette files 5 = Inr p0 \<and> vs (dataUrl c) = Inr j"
  then show "analyzeStyle files (Inr c) vs es d =
        Inr \<lparr> sa_artisticStyle =
                (if externalString j ''artisticStyle'' = [] then ''Custom''
                 else externalString j ''artisticStyle''),
              sa_visualTechnique =
                (if externalString j ''visualTechnique'' = [] then ''Reference-guided''
                 else externalString j ''visualTechnique''),
              sa_colorPalette = (if externalPalette j = [] then p0 else externalPalette j),
              sa_moodKeywords =
                (if externalMoods j = [] then inferMoodKeywords p0 else externalMoods j),
              sa_suggestedName =
                (if externalString j ''suggestedName'' = [] then ''Custom Style '' @ d
                 else externalString j ''suggestedName''),
              sa_embedding = (case es (blob c) of Inl e \<Rightarrow> None | Inr v \<Rightarrow> v),
              sa_reasoning = Some
                (if externalString j ''reasoning'' = []
                 then ''Extracted a dominant palette and inferred basic mood from reference images.''
                 else externalString j ''reasoning'') \<rparr>"
    using analyze_merge [of files p0 vs c j es d] by blast
next
  assume a: "extractDominantPalette files 5 = Inr p0 \<and> vs (dataUrl c) = Inl e"
  then have "analyzeStyle files (Inr c) vs es d
               = analyzeStyle files (Inr c) (\<lambda>u. Inr (JObject [])) es d"
    using analyze_vlm_fails [of vs c e files es d] by blast
  then show "analyzeStyle files (Inr c) vs es d =
        Inr \<lparr> sa_artisticStyle = ''Custom'',
              sa_visualTechnique = ''Reference-guided'',
              sa_colorPalette = p0,
              sa_moodKeywords = inferMoodKeywords p0,
              sa_suggestedName = ''Custom Style '' @ d,
              sa_embedding = (case es (blob c) of Inl e \<Rightarrow> None | Inr v \<Rightarrow> v),
              sa_reasoning =
                Some ''Extracted a dominant palette and inferred basic mood from reference images.'' \<rparr>"
    using analyze_all_fallbacks [of files p0 c es d] a by simp
next
  show "(normalizeHex (JString s) = Some v) =
       (\<exists>pre h. trim s = pre @ h \<and> pre \<in> set [[], ''0x'', ''0X'', ''#'', ''0x#'', ''0X#'']
          \<and> length h = 6 \<and> list_all isHexDigit h \<and> v = CHR ''#'' # map toLowerChar h)"
    by (rule normalizeHex_iff)
qed

theorem C1_merge_precedence_witness:
  "extractDominantPalette onePixel 5 = Inr [''#3868c8'']
   \<and> externalPalette fiveColours = [''#112233'', ''#445566'', ''#778899'', ''#aabbcc'']
   \<and> analyzeStyle onePixel (Inr someCollage) (\<lambda>u. Inr fiveColours) (\<lambda>b. Inr None) ''1/2/2026'' =
       Inr \<lparr> sa_artisticStyle = ''Custom'',
             sa_visualTechnique = ''Reference-guided'',
             sa_colorPalette = [''#112233'', ''#445566'', ''#778899'', ''#aabbcc''],
             sa_moodKeywords = [''balanced'', ''vibrant'', ''stylized''],
             sa_suggestedName = ''Custom Style 1/2/2026'',
             sa_embedding = None,
             sa_reasoning =
               Some ''Extracted a dominant palette and inferred basic mood from reference images.'' \<rparr>"
proof -
  let ?vs = "\<lambda>u :: string. Inr fiveColours :: error + json"
  let ?es = "\<lambda>b :: 8 word list. Inr None :: error + rat list option"
  have p: "extractDominantPalette onePixel 5 = Inr [''#3868c8'']"
    by (rule onePixel_palette)
  note m = onePixel_moods
  have x: "externalPalette fiveColours = [''#112233'', ''#445566'', ''#778899'', ''#aabbcc'']"
    "externalMoods fiveColours = []"
    "externalString fiveColours ''artisticStyle'' = []"
    "externalString fiveColours ''visualTechnique'' = []"
    "externalString fiveColours ''suggestedName'' = []"
    "externalString fiveColours ''reasoning'' = []"
    by code_simp+
  have "analyzeStyle onePixel (Inr someCollage) ?vs ?es ''1/2/2026'' =
        Inr \<lparr> sa_artisticStyle =
                (if externalString fiveColours ''artisticStyle'' = [] then ''Custom''
                 else externalString fiveColours ''artisticStyle''),
              sa_visualTechnique =
                (if externalString fiveColours ''visualTechnique'' = [] then ''Reference-guided''
                 else externalString fiveColours ''visualTechnique''),
              sa_colorPalette = (if externalPalette fiveColours = [] then [''#3868c8'']
                 else externalPalette fiveColours),
              sa_moodKeywords =
                (if externalMoods fiveColours = [] then inferMoodKeywords [''#3868c8'']
                 else externalMoods fiveColours),
              sa_suggestedName =
                (if externalString fiveColours ''suggestedName'' = [] then ''Custom Style '' @ ''1/2/2026''
                 else externalString fiveColours ''suggestedName''),
              sa_embedding = (case ?es (blob someCollage) of Inl e \<Rightarrow> None | Inr v \<Rightarrow> v),
              sa_reasoning = Some
                (if externalString fiveColours ''reasoning'' = []
                 then ''Extracted a dominant palette and inferred basic mood from reference images.''
                 else externalString fiveColours ''reasoning'') \<rparr>"
    using C1_merge_precedence [of onePixel "[''#3868c8'']" ?vs someCollage fiveColours ?es
        "''1/2/2026''", THEN conjunct1] p
    by blast
  then show ?thesis
    using p by (simp add: x m)
qed

text \<open>
  Claim C1 as it was stated fails on an entry with surrounding white space: by the stated
  rule (six hexadecimal digits after stripping a \<open>0x\<close> or \<open>#\<close> prefix) the entry is
  dropped and the fallback palette is due, but the code trims the entry, keeps it and uses
  the external palette.
\<close>

theorem C1_padded_entry_counterexample:
  "filter claimValidHex ['' #aabbcc''] = []
   \<and> extractDominantPalette onePixel 5 = Inr [''#3868c8'']
   \<and> analyzeStyle onePixel (Inr someCollage) (\<lambda>u. Inr paddedColour) (\<lambda>b. Inr None) ''1/2/2026'' =
       Inr \<lparr> sa_artisticStyle = ''Custom'',
             sa_visualTechnique = ''Reference-guided'',
             sa_colorPalette = [''#aabbcc''],
             sa_moodKeywords = [''balanced'', ''vibrant'', ''stylized''],
             sa_suggestedName = ''Custom Style 1/2/2026'',
             sa_embedding = None,
             sa_reasoning =
               Some ''Extracted a dominant palette and inferred basic mood from reference images.'' \<rparr>"
proof -
  let ?vs = "\<lambda>u :: string. Inr paddedColour :: error + json"
  let ?es = "\<lambda>b :: 8 word list. Inr None :: error + rat list option"
  have f: "\<not> claimValidHex '' #aabbcc''"
    by code_simp
  have x: "externalPalette paddedColour = [''#aabbcc'']"
    "externalMoods paddedColour = []"
    "externalString paddedColour ''artisticStyle'' = []"
    "externalString paddedColour ''visualTechnique'' = []"
    "externalString paddedColour ''suggestedName'' = []"
    "externalString paddedColour ''reasoning'' = []"
    by code_simp+
  show ?thesis
    using analyze_merge [OF onePixel_palette, of ?vs someCollage paddedColour ?es "''1/2/2026''"]
    by (simp add: f x onePixel_moods onePixel_palette)
qed

end
